theory Spec2Isabelle
  imports Complex_Main "HOL-Library.Sublist"
begin

section \<open>Strings\<close>

text \<open>
  A JavaScript string is held as a \<^typ>\<open>string\<close>: ASCII characters as themselves, every
  other character as the bytes of its UTF-8 encoding. All the needles the program searches
  for are ASCII, and an ASCII needle occurs in a well-formed string at the same places in
  UTF-8 bytes as in UTF-16 code units.
\<close>

text \<open>\<^verbatim>\<open>String.prototype.includes\<close>: \<open>str_includes s t\<close> is \<^verbatim>\<open>s.includes(t)\<close>.\<close>

definition str_includes :: "string \<Rightarrow> string \<Rightarrow> bool" where
  "str_includes s t = sublist t s"

text \<open>\<^verbatim>\<open>String.prototype.split\<close> with a one-character separator.\<close>

fun str_split :: "char \<Rightarrow> string \<Rightarrow> string list" where
  "str_split sep [] = [[]]"
| "str_split sep (c # cs) =
     (if c = sep then [] # str_split sep cs
      else (case str_split sep cs of
              [] \<Rightarrow> [[c]]
            | w # ws \<Rightarrow> (c # w) # ws))"

text \<open>
  \<^verbatim>\<open>cleanBase64\<close>: the text between the first and the second comma of a data URL,
  or the whole string when it has no comma.
\<close>

definition cleanBase64 :: "string \<Rightarrow> string" where
  "cleanBase64 dataUrl =
     (if str_includes dataUrl '','' then str_split (CHR '','') dataUrl ! 1 else dataUrl)"

section \<open>Thrown values and messages\<close>

text \<open>
  A thrown value is an object with an optional \<^verbatim>\<open>message\<close> string
  (\<open>None\<close> when the property is absent, so that \<^verbatim>\<open>error.message?.includes(..)\<close>
  is falsy).
\<close>

datatype js_error = Error (message: "string option")

definition message_includes :: "js_error \<Rightarrow> string \<Rightarrow> bool" where
  "message_includes error s = (case message error of None \<Rightarrow> False | Some m \<Rightarrow> str_includes m s)"

definition MSG_NO_IMAGE :: string where
  "MSG_NO_IMAGE =
     ''Kh'' @ [CHR 0xC3, CHR 0xB4] @ ''ng nh'' @ [CHR 0xE1, CHR 0xBA, CHR 0xAD] @ ''n '' @
     [CHR 0xC4, CHR 0x91, CHR 0xC6, CHR 0xB0, CHR 0xE1, CHR 0xBB, CHR 0xA3] @ ''c k'' @
     [CHR 0xE1, CHR 0xBA, CHR 0xBF] @ ''t qu'' @ [CHR 0xE1, CHR 0xBA, CHR 0xA3] @ '' h'' @
     [CHR 0xC3, CHR 0xAC] @ ''nh '' @ [CHR 0xE1, CHR 0xBA, CHR 0xA3] @ ''nh t'' @
     [CHR 0xE1, CHR 0xBB, CHR 0xAB] @ '' Gemini.''"

definition MSG_RATE_LIMIT :: string where
  "MSG_RATE_LIMIT =
     ''H'' @ [CHR 0xE1, CHR 0xBB, CHR 0x87] @ '' th'' @ [CHR 0xE1, CHR 0xBB, CHR 0x91] @
     ''ng '' @ [CHR 0xC4, CHR 0x91] @ ''ang qu'' @ [CHR 0xC3, CHR 0xA1] @ '' t'' @
     [CHR 0xE1, CHR 0xBA, CHR 0xA3] @ ''i (Rate Limit). Vui l'' @ [CHR 0xC3, CHR 0xB2] @
     ''ng th'' @ [CHR 0xE1, CHR 0xBB, CHR 0xAD] @ '' l'' @ [CHR 0xE1, CHR 0xBA, CHR 0xA1] @
     ''i sau '' @ [CHR 0xC3, CHR 0xAD] @ ''t ph'' @ [CHR 0xC3, CHR 0xBA] @ ''t.''"

definition MSG_TOO_LARGE :: string where
  "MSG_TOO_LARGE =
     [CHR 0xE1, CHR 0xBA, CHR 0xA2] @ ''nh qu'' @ [CHR 0xC3, CHR 0xA1] @ '' l'' @
     [CHR 0xE1, CHR 0xBB, CHR 0x9B] @ ''n. Vui l'' @ [CHR 0xC3, CHR 0xB2] @ ''ng ch'' @
     [CHR 0xE1, CHR 0xBB, CHR 0x8D] @ ''n '' @ [CHR 0xE1, CHR 0xBA, CHR 0xA3] @ ''nh nh'' @
     [CHR 0xE1, CHR 0xBB, CHR 0x8F] @ '' h'' @ [CHR 0xC6, CHR 0xA1] @ ''n.''"

definition MSG_GIVE_UP :: string where
  "MSG_GIVE_UP =
     ''Kh'' @ [CHR 0xC3, CHR 0xB4] @ ''ng th'' @ [CHR 0xE1, CHR 0xBB, CHR 0x83] @ '' x'' @
     [CHR 0xE1, CHR 0xBB, CHR 0xAD] @ '' l'' @ [CHR 0xC3, CHR 0xBD] @ '' h'' @
     [CHR 0xC3, CHR 0xAC] @ ''nh '' @ [CHR 0xE1, CHR 0xBA, CHR 0xA3] @ ''nh sau nhi'' @
     [CHR 0xE1, CHR 0xBB, CHR 0x81] @ ''u l'' @ [CHR 0xE1, CHR 0xBA, CHR 0xA7] @ ''n th'' @
     [CHR 0xE1, CHR 0xBB, CHR 0xAD] @ ''.''"

definition MSG_DEFAULT :: string where
  "MSG_DEFAULT =
     [CHR 0xC4, CHR 0x90, CHR 0xC3, CHR 0xA3] @ '' x'' @ [CHR 0xE1, CHR 0xBA, CHR 0xA3] @
     ''y ra l'' @ [CHR 0xE1, CHR 0xBB, CHR 0x97] @ ''i trong qu'' @ [CHR 0xC3, CHR 0xA1] @
     '' tr'' @ [CHR 0xC3, CHR 0xAC] @ ''nh x'' @ [CHR 0xE1, CHR 0xBB, CHR 0xAD] @ '' l'' @
     [CHR 0xC3, CHR 0xBD] @ ''.''"

definition MSG_KEY :: string where
  "MSG_KEY =
     ''L'' @ [CHR 0xE1, CHR 0xBB, CHR 0x97] @ ''i x'' @ [CHR 0xC3, CHR 0xA1] @ ''c th'' @
     [CHR 0xE1, CHR 0xBB, CHR 0xB1] @ ''c thanh to'' @ [CHR 0xC3, CHR 0xA1] @
     ''n. Vui l'' @ [CHR 0xC3, CHR 0xB2] @ ''ng k'' @ [CHR 0xE1, CHR 0xBA, CHR 0xBF] @
     ''t n'' @ [CHR 0xE1, CHR 0xBB, CHR 0x91] @ ''i l'' @ [CHR 0xE1, CHR 0xBA, CHR 0xA1] @
     ''i t'' @ [CHR 0xC3, CHR 0xA0] @ ''i kho'' @ [CHR 0xE1, CHR 0xBA, CHR 0xA3] @ ''n.''"

definition MSG_BILLING :: string where
  "MSG_BILLING =
     ''T'' @ [CHR 0xC3, CHR 0xA0] @ ''i kho'' @ [CHR 0xE1, CHR 0xBA, CHR 0xA3] @
     ''n thanh to'' @ [CHR 0xC3, CHR 0xA1] @ ''n c'' @ [CHR 0xE1, CHR 0xBB, CHR 0xA7] @
     ''a b'' @ [CHR 0xE1, CHR 0xBA, CHR 0xA1] @ ''n '' @
     [CHR 0xC4, CHR 0x91, CHR 0xC3, CHR 0xA3] @ '' h'' @ [CHR 0xE1, CHR 0xBA, CHR 0xBF] @
     ''t h'' @ [CHR 0xE1, CHR 0xBA, CHR 0xA1] @ ''n m'' @ [CHR 0xE1, CHR 0xBB, CHR 0xA9] @
     ''c. Vui l'' @ [CHR 0xC3, CHR 0xB2] @ ''ng ki'' @ [CHR 0xE1, CHR 0xBB, CHR 0x83] @
     ''m tra l'' @ [CHR 0xE1, CHR 0xBA, CHR 0xA1] @ ''i Google Cloud Billing.''"

definition MSG_BUSY :: string where
  "MSG_BUSY =
     ''H'' @ [CHR 0xE1, CHR 0xBB, CHR 0x87] @ '' th'' @ [CHR 0xE1, CHR 0xBB, CHR 0x91] @
     ''ng '' @ [CHR 0xC4, CHR 0x91] @ ''ang b'' @ [CHR 0xE1, CHR 0xBA, CHR 0xAD] @
     ''n (Qu'' @ [CHR 0xC3, CHR 0xA1] @ '' t'' @ [CHR 0xE1, CHR 0xBA, CHR 0xA3] @
     ''i). Vui l'' @ [CHR 0xC3, CHR 0xB2] @ ''ng '' @
     [CHR 0xC4, CHR 0x91, CHR 0xE1, CHR 0xBB, CHR 0xA3] @ ''i kho'' @
     [CHR 0xE1, CHR 0xBA, CHR 0xA3] @ ''ng 1 ph'' @ [CHR 0xC3, CHR 0xBA] @ ''t r'' @
     [CHR 0xE1, CHR 0xBB, CHR 0x93] @ ''i th'' @ [CHR 0xE1, CHR 0xBB, CHR 0xAD] @ '' l'' @
     [CHR 0xE1, CHR 0xBA, CHR 0xA1] @ ''i.''"

definition KEY_ERROR :: string where
  "KEY_ERROR = ''KEY_ERROR''"

section \<open>The generation endpoint\<close>

text \<open>
  The response of \<^verbatim>\<open>ai.models.generateContent\<close>. Every property the program reads is
  optional in the SDK's types; an absent property is \<open>None\<close>.
\<close>

datatype blob = Blob (mimeType: "string option") (data: "string option")

datatype part = Part (part_text: "string option") (inlineData: "blob option")

datatype content = Content (parts: "part list option")

datatype candidate = Candidate (content: "content option")

datatype response = Response (candidates: "candidate list option")

record request =
  model :: string
  prompt_text :: string
  image_mimeType :: string
  image_data :: string

datatype endpoint_outcome = Raises js_error | Responds response

text \<open>
  Reading \<^verbatim>\<open>.parts\<close> of an absent \<^verbatim>\<open>content\<close>, and iterating absent
  \<^verbatim>\<open>parts\<close>, raise a \<^verbatim>\<open>TypeError\<close> whose message the JavaScript engine words.
\<close>

datatype type_error_site = ReadPartsOfUndefined | PartsNotIterable

section \<open>The environment\<close>

text \<open>
  What the browser and the network do is a parameter of the model:
  \<^item> \<open>loadImage src\<close>: the image fires \<^verbatim>\<open>onload\<close> with its width and height, or
    \<^verbatim>\<open>onerror\<close> (\<open>None\<close>);
  \<^item> \<open>getContext2d w h\<close>: whether a canvas of that size hands out a 2D context;
  \<^item> \<open>toDataURL cv type quality\<close>: the encoding of a canvas;
  \<^item> \<open>API_KEY\<close>: the value of \<^verbatim>\<open>process.env.API_KEY\<close>, if any;
  \<^item> \<open>newGoogleGenAI key\<close>: what \<^verbatim>\<open>new GoogleGenAI({ apiKey: key })\<close> throws, or
    \<open>None\<close> when it hands out the client;
  \<^item> \<open>generateContent req n\<close>: what the endpoint does at the call of attempt \<open>n\<close>;
  \<^item> \<open>typeErrorMessage\<close>: the engine's wording of a \<^verbatim>\<open>TypeError\<close>.

  The other calls the program makes without a guard of its own (creating the image
  element and the canvas, drawing, encoding) are taken to return, and one of
  \<^verbatim>\<open>onload\<close> and \<^verbatim>\<open>onerror\<close> is taken to fire.
\<close>

record canvas =
  canvas_width :: nat
  canvas_height :: nat
  drawn :: "(string \<times> nat \<times> nat \<times> nat \<times> nat) option"

record env =
  loadImage :: "string \<Rightarrow> (nat \<times> nat) option"
  getContext2d :: "nat \<Rightarrow> nat \<Rightarrow> bool"
  toDataURL :: "canvas \<Rightarrow> string \<Rightarrow> real \<Rightarrow> string"
  API_KEY :: "string option"
  newGoogleGenAI :: "string option \<Rightarrow> js_error option"
  generateContent :: "request \<Rightarrow> nat \<Rightarrow> endpoint_outcome"
  typeErrorMessage :: "type_error_site \<Rightarrow> string"

section \<open>Image preprocessing\<close>

text \<open>
  \<^verbatim>\<open>Math.round\<close> rounds to the nearest integer, a half upwards. Numbers are exact
  reals here; the double division of the program picks the same side of every half
  for the image sizes and the constants it meets.
\<close>

definition Math_round :: "real \<Rightarrow> int" where
  "Math_round x = \<lfloor>x + 1 / 2\<rfloor>"

text \<open>The new dimensions, "ensuring max dimension is maxWidth".\<close>

definition new_dimensions :: "nat \<Rightarrow> nat \<Rightarrow> nat \<Rightarrow> nat \<times> nat" where
  "new_dimensions width height maxWidth =
     (if width > height then
        (if width > maxWidth
         then (maxWidth, nat (Math_round (of_nat (height * maxWidth) / of_nat width)))
         else (width, height))
      else
        (if height > maxWidth
         then (nat (Math_round (of_nat (width * maxWidth) / of_nat height)), maxWidth)
         else (width, height)))"

text \<open>A promise settles as resolved or rejected; \<^verbatim>\<open>await\<close> rethrows a rejection.\<close>

datatype 'a promise = Resolved 'a | Rejected js_error

text \<open>The canvas as it is when the program asks for its context: sized, nothing drawn.\<close>

definition sized_canvas :: "env \<Rightarrow> string \<Rightarrow> nat \<Rightarrow> canvas option" where
  "sized_canvas env base64Str maxWidth =
     (case loadImage env base64Str of
        None \<Rightarrow> None
      | Some (w, h) \<Rightarrow>
          (case new_dimensions w h maxWidth of
             (width, height) \<Rightarrow>
               Some \<lparr>canvas_width = width, canvas_height = height, drawn = None\<rparr>))"

definition compressImage :: "env \<Rightarrow> string \<Rightarrow> nat \<Rightarrow> real \<Rightarrow> string promise" where
  "compressImage env base64Str maxWidth quality =
     (case sized_canvas env base64Str maxWidth of
        None \<Rightarrow> Resolved base64Str
      | Some cv \<Rightarrow>
          if getContext2d env (canvas_width cv) (canvas_height cv)
          then Resolved (toDataURL env
                 (cv\<lparr>drawn := Some (base64Str, 0, 0, canvas_width cv, canvas_height cv)\<rparr>)
                 ''image/jpeg'' quality)
          else Resolved base64Str)"

section \<open>Prompt construction\<close>

text \<open>
  \<^verbatim>\<open>FeatureType\<close>, \<^verbatim>\<open>AngleOption\<close> and \<^verbatim>\<open>RoomOption\<close> are string enums of the
  module \<^verbatim>\<open>types\<close>. The program compares the feature type with two members and
  splices the option's string into the template, so the feature type is one of the two
  members or anything else (the prompt is then empty), and the option is its string.
\<close>

datatype FeatureType = MULTI_ANGLE | SCENE_PLACEMENT | OTHER_FEATURE

definition ANGLE_HEAD :: string where
  "ANGLE_HEAD =
     ''You are a professional product photographer. '' @ [CHR 0x0A] @
     ''    Your task is to photograph the furniture item provided in th'' @
     ''e input image from a specific new angle.'' @ [CHR 0x0A, CHR 0x0A] @
     ''    Target Viewpoint: ''"

definition ANGLE_RULES :: string where
  "ANGLE_RULES =
     ''.'' @ [CHR 0x0A, CHR 0x0A] @ ''    CRITICAL INSTRUCTIONS:'' @ [CHR 0x0A] @
     ''    1. TRANSFORMATION: You must rotate the object to match the T'' @
     ''arget Viewpoint exactly. Do not output the original view.'' @ [CHR 0x0A] @
     ''    2. INFERENCE: If the new view (e.g., Back, Top-down) hides d'' @
     ''etails or reveals unseen areas, logically infer the design based'' @
     '' on the item'' @ [CHR 0x27] @ ''s style and symmetry.'' @ [CHR 0x0A] @
     ''    3. BACKGROUND: Place the object in a professional, neutral s'' @
     ''tudio background (soft grey/white). COMPLETELY REMOVE the origin'' @
     ''al background.'' @ [CHR 0x0A] @
     ''    4. FIDELITY: Keep the materials, colors, and design details '' @
     ''identical to the product in the input image.'' @ [CHR 0x0A] @ ''    ''"

definition QUANTITY_CLAUSE :: string where
  "QUANTITY_CLAUSE =
     ''5. QUANTITY: PRESERVE EXACT NUMBER OF ITEMS. Do not add or remov'' @
     ''e any furniture pieces. If the input has 1 chair, the output mus'' @
     ''t have exactly 1 chair.''"

definition ANGLE_TAIL :: string where
  "ANGLE_TAIL =
     [CHR 0x0A] @ ''    '' @ [CHR 0x0A] @
     ''    The result must look like a fresh photo taken from the reque'' @
     ''sted angle, distinctly different from the original image composi'' @ ''tion.''"

definition SCENE_HEAD :: string where
  "SCENE_HEAD =
     ''You are a professional interior designer and 3D artist.'' @ [CHR 0x0A] @
     ''    Your task is to place the furniture item from the input imag'' @
     ''e into a completely new environment.'' @ [CHR 0x0A, CHR 0x0A] @
     ''    Target Scene: ''"

definition SCENE_MID :: string where
  "SCENE_MID =
     ''.'' @ [CHR 0x0A, CHR 0x0A] @ ''    CRITICAL INSTRUCTIONS:'' @ [CHR 0x0A] @
     ''    1. NEW ENVIRONMENT: Place the product in a brand new, high-e'' @
     ''nd, photorealistic ''"

definition SCENE_RULES :: string where
  "SCENE_RULES =
     ''.'' @ [CHR 0x0A] @
     ''    2. DIFFERENTIATION: The background and lighting MUST be comp'' @
     ''letely different from the original image. Do not preserve the or'' @
     ''iginal room context.'' @ [CHR 0x0A] @
     ''    3. INTEGRATION: Ensure realistic shadows, reflections, and l'' @
     ''ighting that match the new scene.'' @ [CHR 0x0A] @
     ''    4. ISOLATION: Cleanly separate the furniture from its origin'' @
     ''al background before placing it.'' @ [CHR 0x0A] @ ''    ''"

definition SCENE_TAIL :: string where
  "SCENE_TAIL =
     [CHR 0x0A] @ ''    '' @ [CHR 0x0A] @
     ''    The final image should look like a professional catalog phot'' @
     ''o in a modern home setting.''"

definition build_prompt :: "FeatureType \<Rightarrow> string \<Rightarrow> string" where
  "build_prompt featureType option =
     (case featureType of
        MULTI_ANGLE \<Rightarrow> ANGLE_HEAD @ option @ ANGLE_RULES @ QUANTITY_CLAUSE @ ANGLE_TAIL
      | SCENE_PLACEMENT \<Rightarrow>
          SCENE_HEAD @ option @ SCENE_MID @ option @ SCENE_RULES @ QUANTITY_CLAUSE @ SCENE_TAIL
      | OTHER_FEATURE \<Rightarrow> [])"

section \<open>Cost formatting\<close>

definition MODEL_NAME :: string where
  "MODEL_NAME = ''gemini-2.5-flash-image''"

definition ESTIMATED_COST_USD :: real where
  "ESTIMATED_COST_USD = 0.002"

definition EXCHANGE_RATE :: real where
  "EXCHANGE_RATE = 25400"

definition digit :: "nat \<Rightarrow> char" where
  "digit d = ''0123456789'' ! d"

fun show_nat :: "nat \<Rightarrow> string" where
  "show_nat n = (if n < 10 then [digit n] else show_nat (n div 10) @ [digit (n mod 10)])"

declare show_nat.simps [simp del]

definition pad_left :: "nat \<Rightarrow> string \<Rightarrow> string" where
  "pad_left k s = replicate (k - length s) (CHR ''0'') @ s"

text \<open>\<^verbatim>\<open>Number.prototype.toFixed\<close>: the nearest decimal with that many fraction digits.\<close>

definition toFixed :: "real \<Rightarrow> nat \<Rightarrow> string" where
  "toFixed x fractionDigits =
     (let n = nat \<lfloor>\<bar>x\<bar> * 10 ^ fractionDigits + 1 / 2\<rfloor>
      in (if x < 0 then ''-'' else []) @ show_nat (n div 10 ^ fractionDigits) @
         (if fractionDigits = 0 then []
          else ''.'' @ pad_left fractionDigits (show_nat (n mod 10 ^ fractionDigits))))"

text \<open>\<^verbatim>\<open>toLocaleString('vi-VN')\<close> of an integer: groups of three digits, separated by dots.\<close>

fun group_thousands :: "nat \<Rightarrow> string" where
  "group_thousands n =
     (if n < 1000 then show_nat n
      else group_thousands (n div 1000) @ ''.'' @ pad_left 3 (show_nat (n mod 1000)))"

declare group_thousands.simps [simp del]

definition toLocaleString_vi_VN :: "int \<Rightarrow> string" where
  "toLocaleString_vi_VN i = (if i < 0 then ''-'' else []) @ group_thousands (nat \<bar>i\<bar>)"

record CostInfo =
  usd :: string
  vnd :: string

record GenerationResult =
  imageUrl :: string
  cost :: CostInfo

section \<open>The generation client\<close>

definition MAX_RETRIES :: nat where
  "MAX_RETRIES = 2"

text \<open>
  The test \<^verbatim>\<open>part.inlineData && part.inlineData.data\<close>: the data when both are truthy
  (an empty string is falsy). The loop over the parts of the first candidate returns at
  the first part that passes it.
\<close>

definition inline_image :: "part \<Rightarrow> string option" where
  "inline_image p =
     (case inlineData p of
        None \<Rightarrow> None
      | Some b \<Rightarrow>
          (case data b of
             None \<Rightarrow> None
           | Some d \<Rightarrow> if d = [] then None else Some d))"

fun scan_parts :: "part list \<Rightarrow> string option" where
  "scan_parts [] = None"
| "scan_parts (p # ps) =
     (case inline_image p of
        Some d \<Rightarrow> Some d
      | None \<Rightarrow> scan_parts ps)"

definition make_result :: "string \<Rightarrow> GenerationResult" where
  "make_result d =
     (let costUsd = ESTIMATED_COST_USD;
          costVnd = Math_round (costUsd * EXCHANGE_RATE)
      in \<lparr>imageUrl = ''data:image/jpeg;base64,'' @ d,
          cost = \<lparr>usd = ''$'' @ toFixed costUsd 4,
                   vnd = toLocaleString_vi_VN costVnd @ '' '' @ [CHR 0xC4, CHR 0x91]\<rparr>\<rparr>)"

text \<open>What the program does with a response, from reading the candidates to the throw.\<close>

definition read_response :: "env \<Rightarrow> response \<Rightarrow> js_error + GenerationResult" where
  "read_response env resp =
     (case candidates resp of
        None \<Rightarrow> Inl (Error (Some MSG_NO_IMAGE))
      | Some [] \<Rightarrow> Inl (Error (Some MSG_NO_IMAGE))
      | Some (c # _) \<Rightarrow>
          (case content c of
             None \<Rightarrow> Inl (Error (Some (typeErrorMessage env ReadPartsOfUndefined)))
           | Some ct \<Rightarrow>
               (case parts ct of
                  None \<Rightarrow> Inl (Error (Some (typeErrorMessage env PartsNotIterable)))
                | Some ps \<Rightarrow>
                    (case scan_parts ps of
                       Some d \<Rightarrow> Inr (make_result d)
                     | None \<Rightarrow> Inl (Error (Some MSG_NO_IMAGE))))))"

text \<open>The body of the \<^verbatim>\<open>try\<close>: the result it returns, or what it throws.\<close>

definition try_body :: "env \<Rightarrow> request \<Rightarrow> nat \<Rightarrow> js_error + GenerationResult" where
  "try_body env req attempt =
     (case generateContent env req attempt of
        Raises e \<Rightarrow> Inl e
      | Responds resp \<Rightarrow> read_response env resp)"

definition isRateLimit :: "js_error \<Rightarrow> bool" where
  "isRateLimit error \<longleftrightarrow>
     message_includes error ''429'' \<or>
     message_includes error ''Quota exceeded'' \<or>
     message_includes error ''RESOURCE_EXHAUSTED''"

text \<open>The \<^verbatim>\<open>catch\<close> block either waits and continues the loop, or throws.\<close>

datatype catch_action = Continue nat | Throw js_error

definition catch_block :: "nat \<Rightarrow> js_error \<Rightarrow> catch_action" where
  "catch_block attempt error =
     (if message_includes error ''Requested entity was not found''
      then Throw (Error (Some KEY_ERROR))
      else if attempt < MAX_RETRIES then
        (if isRateLimit error then Continue ((attempt + 1) * 5000 + 2000) else Continue 1000)
      else if isRateLimit error then Throw (Error (Some MSG_RATE_LIMIT))
      else if message_includes error ''413'' \<or> message_includes error ''too large''
      then Throw (Error (Some MSG_TOO_LARGE))
      else Throw error)"

text \<open>
  The retry loop from a given attempt index on. It yields the calls of the endpoint and
  the waits in the order they happen, and how the loop was left: by the \<^verbatim>\<open>return\<close>, by
  a \<^verbatim>\<open>throw\<close> of the \<^verbatim>\<open>catch\<close> block, or by its condition becoming false.
\<close>

datatype event = Call nat | Wait nat

datatype loop_exit = Returned GenerationResult | Threw js_error | FellThrough

function retry_loop :: "env \<Rightarrow> request \<Rightarrow> nat \<Rightarrow> event list \<times> loop_exit" where
  "retry_loop env req attempt =
     (if attempt \<le> MAX_RETRIES then
        (case try_body env req attempt of
           Inr result \<Rightarrow> ([Call attempt], Returned result)
         | Inl error \<Rightarrow>
             (case catch_block attempt error of
                Throw e \<Rightarrow> ([Call attempt], Threw e)
              | Continue ms \<Rightarrow>
                  (case retry_loop env req (attempt + 1) of
                     (evs, x) \<Rightarrow> (Call attempt # Wait ms # evs, x))))
      else ([], FellThrough))"
  by pat_completeness auto
termination
  by (relation "measure (\<lambda>(env, req, attempt). Suc MAX_RETRIES - attempt)") auto

declare retry_loop.simps [simp del]

text \<open>The attempt indices at which the endpoint was called, in order.\<close>

fun calls_of :: "event list \<Rightarrow> nat list" where
  "calls_of [] = []"
| "calls_of (Call n # evs) = n # calls_of evs"
| "calls_of (Wait ms # evs) = calls_of evs"

text \<open>The argument of \<^verbatim>\<open>generateContent\<close>, the same at every attempt.\<close>

definition make_request :: "string \<Rightarrow> string \<Rightarrow> request" where
  "make_request prompt cleanImage =
     \<lparr>model = MODEL_NAME, prompt_text = prompt,
      image_mimeType = ''image/jpeg'', image_data = cleanImage\<rparr>"

text \<open>What the caller gets: the loop's result or error, or the throw after the loop.\<close>

definition after_loop :: "loop_exit \<Rightarrow> js_error + GenerationResult" where
  "after_loop x =
     (case x of
        Returned result \<Rightarrow> Inr result
      | Threw e \<Rightarrow> Inl e
      | FellThrough \<Rightarrow> Inl (Error (Some MSG_GIVE_UP)))"

text \<open>
  The whole call. The client object is constructed first, outside any \<^verbatim>\<open>try\<close>: what
  its constructor throws reaches the caller as it is, before the image is preprocessed
  and before any attempt.
\<close>

definition generateFurnitureImage ::
  "env \<Rightarrow> string \<Rightarrow> FeatureType \<Rightarrow> string \<Rightarrow> event list \<times> (js_error + GenerationResult)" where
  "generateFurnitureImage env originalImageBase64 featureType option =
     (case newGoogleGenAI env (API_KEY env) of
        Some e \<Rightarrow> ([], Inl e)
      | None \<Rightarrow>
          (case compressImage env originalImageBase64 1024 0.8 of
             Rejected e \<Rightarrow> ([], Inl e)
           | Resolved compressedImage \<Rightarrow>
               (let cleanImage = cleanBase64 compressedImage;
                    prompt = build_prompt featureType option
                in case retry_loop env (make_request prompt cleanImage) 0 of
                     (evs, x) \<Rightarrow> (evs, after_loop x))))"

section \<open>The caller\<close>

datatype AppStep = UPLOAD | SELECT_FEATURE | PROCESSING | RESULT

record app_state =
  step :: AppStep
  originalImage :: "string option"
  resultImage :: "string option"
  costInfo :: "CostInfo option"
  loading :: bool
  error :: "string option"
  hasApiKey :: bool
  checkingKey :: bool

text \<open>The \<^verbatim>\<open>catch\<close> block of \<^verbatim>\<open>handleFeatureSelect\<close>, up to \<^verbatim>\<open>setError\<close>.\<close>

definition on_processing_error :: "js_error \<Rightarrow> app_state \<Rightarrow> app_state" where
  "on_processing_error err st =
     (let errorMessage =
            (case message err of
               None \<Rightarrow> MSG_DEFAULT
             | Some m \<Rightarrow> if m = [] then MSG_DEFAULT else m)
      in if errorMessage = KEY_ERROR
         then st\<lparr>hasApiKey := False, error := Some MSG_KEY, step := SELECT_FEATURE\<rparr>
         else if str_includes errorMessage ''429'' \<or>
                 str_includes errorMessage ''quota'' \<or>
                 str_includes errorMessage ''exhausted'' \<or>
                 str_includes errorMessage ''Resource has been exhausted''
         then (if str_includes errorMessage ''limit: 0'' \<or> str_includes errorMessage ''limit:0''
               then st\<lparr>error := Some MSG_BILLING, step := SELECT_FEATURE\<rparr>
               else st\<lparr>error := Some MSG_BUSY, step := SELECT_FEATURE\<rparr>)
         else st\<lparr>error := Some errorMessage, step := SELECT_FEATURE\<rparr>)"

definition handleFeatureSelect ::
  "env \<Rightarrow> FeatureType \<Rightarrow> string \<Rightarrow> app_state \<Rightarrow> app_state" where
  "handleFeatureSelect env feature option st =
     (case originalImage st of
        None \<Rightarrow> st
      | Some img \<Rightarrow>
          if img = [] then st
          else
            (let st1 = st\<lparr>step := PROCESSING, loading := True, error := None\<rparr>
             in (case snd (generateFurnitureImage env img feature option) of
                   Inr result \<Rightarrow>
                     st1\<lparr>resultImage := Some (imageUrl result),
                         costInfo := Some (cost result),
                         step := RESULT, loading := False\<rparr>
                 | Inl err \<Rightarrow> (on_processing_error err st1)\<lparr>loading := False\<rparr>)))"

section \<open>Mocked environments\<close>

text \<open>
  A browser in which the image loads as 2048 by 1024 and the canvas works, with an API
  key, in front of a scripted endpoint; the same browser without a 2D context; one in
  which the image does not load; and one without an API key, where the client's
  constructor throws.
\<close>

definition MSG_NO_KEY :: string where
  "MSG_NO_KEY = ''An API Key must be set when running in a browser''"

definition mock_env :: "(nat \<Rightarrow> endpoint_outcome) \<Rightarrow> env" where
  "mock_env endpoint =
     \<lparr>loadImage = (\<lambda>src. Some (2048, 1024)),
      getContext2d = (\<lambda>w h. True),
      toDataURL = (\<lambda>cv type quality. ''data:image/jpeg;base64,/9j/4AAQ''),
      API_KEY = Some ''mock-key'',
      newGoogleGenAI =
        (\<lambda>key. case key of None \<Rightarrow> Some (Error (Some MSG_NO_KEY)) | Some k \<Rightarrow> None),
      generateContent = (\<lambda>req n. endpoint n),
      typeErrorMessage = (\<lambda>site. ''TypeError'')\<rparr>"

definition mock_env_no_key :: "(nat \<Rightarrow> endpoint_outcome) \<Rightarrow> env" where
  "mock_env_no_key endpoint = (mock_env endpoint)\<lparr>API_KEY := None\<rparr>"

definition mock_env_no_context :: "(nat \<Rightarrow> endpoint_outcome) \<Rightarrow> env" where
  "mock_env_no_context endpoint = (mock_env endpoint)\<lparr>getContext2d := (\<lambda>w h. False)\<rparr>"

definition mock_env_broken_image :: "(nat \<Rightarrow> endpoint_outcome) \<Rightarrow> env" where
  "mock_env_broken_image endpoint = (mock_env endpoint)\<lparr>loadImage := (\<lambda>src. None)\<rparr>"

definition always_raises :: "string \<Rightarrow> nat \<Rightarrow> endpoint_outcome" where
  "always_raises m n = Raises (Error (Some m))"

definition scripted :: "endpoint_outcome list \<Rightarrow> nat \<Rightarrow> endpoint_outcome" where
  "scripted outcomes n =
     (if n < length outcomes then outcomes ! n else Raises (Error (Some ''fetch failed'')))"

definition image_part :: "string \<Rightarrow> part" where
  "image_part d = Part None (Some (Blob (Some ''image/png'') (Some d)))"

definition text_part :: "string \<Rightarrow> part" where
  "text_part s = Part (Some s) None"

definition image_response :: "string \<Rightarrow> response" where
  "image_response d =
     Response (Some [Candidate (Some (Content (Some [text_part ''Done.'', image_part d])))])"

definition second_candidate_response :: "string \<Rightarrow> response" where
  "second_candidate_response d =
     Response (Some [Candidate (Some (Content (Some [text_part ''Done.'']))),
                     Candidate (Some (Content (Some [image_part d])))])"

definition mock_request :: request where
  "mock_request = make_request (build_prompt MULTI_ANGLE ''Back'') ''/9j/4AAQ''"

definition mock_state :: app_state where
  "mock_state =
     \<lparr>step = SELECT_FEATURE, originalImage = Some ''data:image/png;base64,iVBORw0KGgo='',
      resultImage = None, costInfo = None, loading = False, error = None,
      hasApiKey = True, checkingKey = False\<rparr>"

section \<open>The retry loop\<close>

lemma retry_loop_return:
  "attempt \<le> MAX_RETRIES \<Longrightarrow> try_body env req attempt = Inr r \<Longrightarrow>
   retry_loop env req attempt = ([Call attempt], Returned r)"
  by (subst retry_loop.simps) simp

lemma retry_loop_throw:
  "attempt \<le> MAX_RETRIES \<Longrightarrow> try_body env req attempt = Inl e \<Longrightarrow>
   catch_block attempt e = Throw x \<Longrightarrow>
   retry_loop env req attempt = ([Call attempt], Threw x)"
  by (subst retry_loop.simps) simp

lemma retry_loop_continue:
  "attempt \<le> MAX_RETRIES \<Longrightarrow> try_body env req attempt = Inl e \<Longrightarrow>
   catch_block attempt e = Continue ms \<Longrightarrow>
   retry_loop env req attempt =
     (Call attempt # Wait ms # fst (retry_loop env req (Suc attempt)),
      snd (retry_loop env req (Suc attempt)))"
  by (subst retry_loop.simps) (simp split: prod.splits)

lemma retry_loop_exit:
  "\<not> attempt \<le> MAX_RETRIES \<Longrightarrow> retry_loop env req attempt = ([], FellThrough)"
  by (subst retry_loop.simps) simp

lemma catch_block_Continue_less:
  "catch_block attempt e = Continue ms \<Longrightarrow> attempt < MAX_RETRIES"
  by (auto simp: catch_block_def split: if_splits)

lemma retry_loop_cases:
  assumes "attempt \<le> MAX_RETRIES"
  shows "(\<exists>r. try_body env req attempt = Inr r \<and>
              retry_loop env req attempt = ([Call attempt], Returned r)) \<or>
         (\<exists>e x. try_body env req attempt = Inl e \<and> catch_block attempt e = Throw x \<and>
              retry_loop env req attempt = ([Call attempt], Threw x)) \<or>
         (\<exists>e ms. try_body env req attempt = Inl e \<and> catch_block attempt e = Continue ms \<and>
              Suc attempt \<le> MAX_RETRIES \<and>
              retry_loop env req attempt =
                (Call attempt # Wait ms # fst (retry_loop env req (Suc attempt)),
                 snd (retry_loop env req (Suc attempt))))"
proof (cases "try_body env req attempt")
  case (Inr r)
  with assms show ?thesis by (simp add: retry_loop_return)
next
  case (Inl e)
  show ?thesis
  proof (cases "catch_block attempt e")
    case (Throw x)
    with assms Inl show ?thesis by (simp add: retry_loop_throw)
  next
    case (Continue ms)
    then have "Suc attempt \<le> MAX_RETRIES"
      using catch_block_Continue_less by fastforce
    with assms Inl Continue show ?thesis by (simp add: retry_loop_continue)
  qed
qed

lemma retry_loop_not_FellThrough:
  "attempt \<le> MAX_RETRIES \<Longrightarrow> snd (retry_loop env req attempt) \<noteq> FellThrough"
proof (induction env req attempt rule: retry_loop.induct)
  case (1 env req attempt)
  from retry_loop_cases [OF "1.prems", of env req] show ?case
  proof (elim disjE exE conjE)
    fix e ms
    assume a: "try_body env req attempt = Inl e" "catch_block attempt e = Continue ms"
      "Suc attempt \<le> MAX_RETRIES"
      and eq: "retry_loop env req attempt =
        (Call attempt # Wait ms # fst (retry_loop env req (Suc attempt)),
         snd (retry_loop env req (Suc attempt)))"
    from "1.IH" [OF "1.prems" a(1,2)] a(3)
    have "snd (retry_loop env req (Suc attempt)) \<noteq> FellThrough" by simp
    with eq show ?thesis by simp
  qed simp_all
qed

lemma try_body_always_raises:
  "try_body (mock_env (always_raises m)) req n = Inl (Error (Some m))"
  by (simp add: try_body_def mock_env_def always_raises_def)

section \<open>The prompt\<close>

lemma str_includes_append: "str_includes (a @ t @ b) t"
  by (auto simp: str_includes_def sublist_def)

text \<open>
  C9. For the feature types \<^verbatim>\<open>MULTI_ANGLE\<close> and \<^verbatim>\<open>SCENE_PLACEMENT\<close> and every option,
  the prompt contains the option's label and the quantity clause, which tells the model
  to preserve the exact number of items.
\<close>

theorem prompt_contains_option_and_quantity:
  "featureType = MULTI_ANGLE \<or> featureType = SCENE_PLACEMENT \<Longrightarrow>
   str_includes (build_prompt featureType option) option \<and>
   str_includes (build_prompt featureType option) QUANTITY_CLAUSE \<and>
   str_includes QUANTITY_CLAUSE ''PRESERVE EXACT NUMBER OF ITEMS''"
proof -
  assume f: "featureType = MULTI_ANGLE \<or> featureType = SCENE_PLACEMENT"
  have q: "str_includes QUANTITY_CLAUSE ''PRESERVE EXACT NUMBER OF ITEMS''"
    unfolding QUANTITY_CLAUSE_def str_includes_def by (simp add: sublist_code prefix_code)
  have a1: "str_includes (build_prompt MULTI_ANGLE option) option"
    unfolding build_prompt_def by (simp add: str_includes_append)
  have a2: "str_includes (build_prompt MULTI_ANGLE option) QUANTITY_CLAUSE"
    unfolding build_prompt_def
    using str_includes_append [of "ANGLE_HEAD @ option @ ANGLE_RULES" QUANTITY_CLAUSE ANGLE_TAIL]
    by simp
  have s1: "str_includes (build_prompt SCENE_PLACEMENT option) option"
    unfolding build_prompt_def by (simp add: str_includes_append)
  have s2: "str_includes (build_prompt SCENE_PLACEMENT option) QUANTITY_CLAUSE"
    unfolding build_prompt_def
    using str_includes_append
      [of "SCENE_HEAD @ option @ SCENE_MID @ option @ SCENE_RULES" QUANTITY_CLAUSE SCENE_TAIL]
    by simp
  from f q a1 a2 s1 s2 show ?thesis by auto
qed

theorem prompt_contains_option_and_quantity_witness:
  "str_includes (build_prompt SCENE_PLACEMENT ''Living Room'') ''Living Room'' \<and>
   str_includes (build_prompt SCENE_PLACEMENT ''Living Room'') QUANTITY_CLAUSE \<and>
   str_includes QUANTITY_CLAUSE ''PRESERVE EXACT NUMBER OF ITEMS''"
  using prompt_contains_option_and_quantity [of SCENE_PLACEMENT "''Living Room''"] by simp

section \<open>The dimensions of the preprocessed image\<close>











lemma new_dimensions_mock: "new_dimensions 2048 1024 1024 = (1024, 512)"
  by (simp add: new_dimensions_def Math_round_def)



section \<open>Preprocessing never fails the call\<close>

lemma compressImage_resolves: "\<exists>out. compressImage env base64Str maxWidth quality = Resolved out"
  by (simp add: compressImage_def split: option.splits)

lemma generate_no_client:
  "newGoogleGenAI env (API_KEY env) = Some e \<Longrightarrow>
   generateFurnitureImage env img f opt = ([], Inl e)"
  by (simp add: generateFurnitureImage_def)

lemma generate_via_loop:
  "newGoogleGenAI env (API_KEY env) = None \<Longrightarrow>
   compressImage env img 1024 0.8 = Resolved c \<Longrightarrow>
   generateFurnitureImage env img f opt =
     (fst (retry_loop env (make_request (build_prompt f opt) (cleanBase64 c)) 0),
      after_loop (snd (retry_loop env (make_request (build_prompt f opt) (cleanBase64 c)) 0)))"
  by (simp add: generateFurnitureImage_def Let_def split: prod.splits)

lemma retry_loop_starts_with_call:
  "attempt \<le> MAX_RETRIES \<Longrightarrow> \<exists>evs. fst (retry_loop env req attempt) = Call attempt # evs"
  using retry_loop_cases [of attempt env req] by auto

text \<open>
  C8. The preprocessor's promise is never rejected. When the image does not load, and
  when the canvas hands out no 2D context, it resolves with the input string itself; the
  generation call, which reaches the preprocessor once its client object exists, then
  goes on to the retry loop with the input's own data and calls the endpoint.
\<close>

theorem compressImage_never_rejects:
  "(\<exists>out. compressImage env base64Str maxWidth quality = Resolved out) \<and>
   (loadImage env base64Str = None \<longrightarrow>
      compressImage env base64Str maxWidth quality = Resolved base64Str) \<and>
   (\<forall>cv. sized_canvas env base64Str maxWidth = Some cv \<and>
         \<not> getContext2d env (canvas_width cv) (canvas_height cv) \<longrightarrow>
      compressImage env base64Str maxWidth quality = Resolved base64Str) \<and>
   (newGoogleGenAI env (API_KEY env) = None \<and>
    compressImage env base64Str 1024 0.8 = Resolved base64Str \<longrightarrow>
      generateFurnitureImage env base64Str f opt =
        (fst (retry_loop env (make_request (build_prompt f opt) (cleanBase64 base64Str)) 0),
         after_loop
           (snd (retry_loop env (make_request (build_prompt f opt) (cleanBase64 base64Str)) 0))) \<and>
      (\<exists>evs. fst (generateFurnitureImage env base64Str f opt) = Call 0 # evs))"
proof (intro conjI allI impI)
  show "\<exists>out. compressImage env base64Str maxWidth quality = Resolved out"
    by (rule compressImage_resolves)
next
  assume "loadImage env base64Str = None"
  then show "compressImage env base64Str maxWidth quality = Resolved base64Str"
    by (simp add: compressImage_def sized_canvas_def)
next
  fix cv
  assume "sized_canvas env base64Str maxWidth = Some cv \<and>
          \<not> getContext2d env (canvas_width cv) (canvas_height cv)"
  then show "compressImage env base64Str maxWidth quality = Resolved base64Str"
    by (simp add: compressImage_def)
next
  assume a: "newGoogleGenAI env (API_KEY env) = None \<and>
    compressImage env base64Str 1024 0.8 = Resolved base64Str"
  then have k: "newGoogleGenAI env (API_KEY env) = None"
    and c: "compressImage env base64Str 1024 0.8 = Resolved base64Str"
    by simp_all
  from generate_via_loop [OF k c]
  show g: "generateFurnitureImage env base64Str f opt =
        (fst (retry_loop env (make_request (build_prompt f opt) (cleanBase64 base64Str)) 0),
         after_loop
           (snd (retry_loop env (make_request (build_prompt f opt) (cleanBase64 base64Str)) 0)))" .
  show "\<exists>evs. fst (generateFurnitureImage env base64Str f opt) = Call 0 # evs"
    unfolding g using retry_loop_starts_with_call [of 0] by simp
qed

lemma read_image_response:
  "read_response env (image_response d) =
     (if d = [] then Inl (Error (Some MSG_NO_IMAGE)) else Inr (make_result d))"
  by (simp add: read_response_def image_response_def inline_image_def image_part_def text_part_def)

lemma generateContent_mock [simp]:
  "generateContent (mock_env ep) req n = ep n"
  "generateContent (mock_env_no_context ep) req n = ep n"
  "generateContent (mock_env_broken_image ep) req n = ep n"
  by (simp_all add: mock_env_def mock_env_no_context_def mock_env_broken_image_def)

lemma newGoogleGenAI_mock:
  "newGoogleGenAI (mock_env ep) (API_KEY (mock_env ep)) = None"
  "newGoogleGenAI (mock_env_no_context ep) (API_KEY (mock_env_no_context ep)) = None"
  "newGoogleGenAI (mock_env_broken_image ep) (API_KEY (mock_env_broken_image ep)) = None"
  "newGoogleGenAI (mock_env_no_key ep) (API_KEY (mock_env_no_key ep))
     = Some (Error (Some MSG_NO_KEY))"
  by (simp_all add: mock_env_def mock_env_no_context_def mock_env_broken_image_def
      mock_env_no_key_def)

lemma compressImage_mock:
  "compressImage (mock_env ep) img 1024 q = Resolved ''data:image/jpeg;base64,/9j/4AAQ''"
  "compressImage (mock_env_no_context ep) img 1024 q = Resolved img"
  "compressImage (mock_env_broken_image ep) img 1024 q = Resolved img"
  by (simp_all add: mock_env_def mock_env_no_context_def mock_env_broken_image_def
      compressImage_def sized_canvas_def new_dimensions_mock)

theorem compressImage_never_rejects_witness:
  "loadImage (mock_env_broken_image (scripted [Responds (image_response ''QUJD'')]))
     ''data:image/png;base64,iVBORw0KGgo='' = None \<and>
   newGoogleGenAI (mock_env_broken_image (scripted [Responds (image_response ''QUJD'')]))
     (API_KEY (mock_env_broken_image (scripted [Responds (image_response ''QUJD'')]))) = None \<and>
   compressImage (mock_env_broken_image (scripted [Responds (image_response ''QUJD'')]))
     ''data:image/png;base64,iVBORw0KGgo='' 1024 0.8
     = Resolved ''data:image/png;base64,iVBORw0KGgo='' \<and>
   generateFurnitureImage (mock_env_broken_image (scripted [Responds (image_response ''QUJD'')]))
     ''data:image/png;base64,iVBORw0KGgo='' MULTI_ANGLE ''Back''
     = ([Call 0], Inr (make_result ''QUJD'')) \<and>
   sized_canvas (mock_env_no_context (scripted [])) ''data:image/png;base64,iVBORw0KGgo='' 1024
     = Some \<lparr>canvas_width = 1024, canvas_height = 512, drawn = None\<rparr> \<and>
   \<not> getContext2d (mock_env_no_context (scripted [])) 1024 512 \<and>
   compressImage (mock_env_no_context (scripted [])) ''data:image/png;base64,iVBORw0KGgo=''
     1024 0.8 = Resolved ''data:image/png;base64,iVBORw0KGgo=''"
proof -
  let ?img = "''data:image/png;base64,iVBORw0KGgo=''"
  let ?e1 = "mock_env_broken_image (scripted [Responds (image_response ''QUJD'')])"
  let ?e2 = "mock_env_no_context (scripted [])"
  let ?req = "make_request (build_prompt MULTI_ANGLE ''Back'') (cleanBase64 ?img)"
  have l: "loadImage ?e1 ?img = None"
    by (simp add: mock_env_broken_image_def mock_env_def)
  have s: "sized_canvas ?e2 ?img 1024 =
      Some \<lparr>canvas_width = 1024, canvas_height = 512, drawn = None\<rparr>"
    by (simp add: mock_env_no_context_def mock_env_def sized_canvas_def new_dimensions_mock)
  have g: "\<not> getContext2d ?e2 1024 512"
    by (simp add: mock_env_no_context_def mock_env_def)
  have t: "try_body ?e1 ?req 0 = Inr (make_result ''QUJD'')"
    by (simp add: try_body_def scripted_def read_image_response)
  have r: "retry_loop ?e1 ?req 0 = ([Call 0], Returned (make_result ''QUJD''))"
    by (rule retry_loop_return [OF _ t]) simp
  have k: "newGoogleGenAI ?e1 (API_KEY ?e1) = None"
    by (rule newGoogleGenAI_mock)
  from compressImage_never_rejects [of ?e1 ?img 1024 "8 / 10" MULTI_ANGLE "''Back''"] l
  have c1: "compressImage ?e1 ?img 1024 0.8 = Resolved ?img"
    and "newGoogleGenAI ?e1 (API_KEY ?e1) = None \<and>
      compressImage ?e1 ?img 1024 0.8 = Resolved ?img \<longrightarrow>
      generateFurnitureImage ?e1 ?img MULTI_ANGLE ''Back'' =
        (fst (retry_loop ?e1 ?req 0), after_loop (snd (retry_loop ?e1 ?req 0)))"
    by blast+
  with k have g1: "generateFurnitureImage ?e1 ?img MULTI_ANGLE ''Back'' =
      ([Call 0], Inr (make_result ''QUJD''))"
    by (simp add: r after_loop_def)
  from compressImage_never_rejects [of ?e2 ?img 1024 "8 / 10" MULTI_ANGLE "''Back''"] s g
  have c2: "compressImage ?e2 ?img 1024 0.8 = Resolved ?img"
    by (metis canvas.select_convs(1,2))
  from l k c1 g1 s g c2 show ?thesis by simp
qed

section \<open>The credential error\<close>

lemma try_body_Raises:
  "generateContent env req n = Raises e \<Longrightarrow> try_body env req n = Inl e"
  by (simp add: try_body_def)

lemma catch_block_not_found:
  "message_includes e ''Requested entity was not found'' \<Longrightarrow>
   catch_block attempt e = Throw (Error (Some KEY_ERROR))"
  by (simp add: catch_block_def)

lemma retry_loop_key_error:
  "attempt \<le> MAX_RETRIES \<Longrightarrow> Call n \<in> set (fst (retry_loop env req attempt)) \<Longrightarrow>
   try_body env req n = Inl e \<Longrightarrow> message_includes e ''Requested entity was not found'' \<Longrightarrow>
   last (fst (retry_loop env req attempt)) = Call n \<and>
   snd (retry_loop env req attempt) = Threw (Error (Some KEY_ERROR))"
proof (induction env req attempt rule: retry_loop.induct)
  case (1 env req attempt)
  note nf = catch_block_not_found [OF "1.prems"(4)]
  from retry_loop_cases [OF "1.prems"(1), of env req] show ?case
  proof (elim disjE exE conjE)
    fix r
    assume "try_body env req attempt = Inr r"
      "retry_loop env req attempt = ([Call attempt], Returned r)"
    with "1.prems" show ?thesis by auto
  next
    fix e' x
    assume "try_body env req attempt = Inl e'" "catch_block attempt e' = Throw x"
      "retry_loop env req attempt = ([Call attempt], Threw x)"
    with "1.prems" nf show ?thesis by auto
  next
    fix e' ms
    assume a: "try_body env req attempt = Inl e'" "catch_block attempt e' = Continue ms"
      "Suc attempt \<le> MAX_RETRIES"
      and eq: "retry_loop env req attempt =
        (Call attempt # Wait ms # fst (retry_loop env req (Suc attempt)),
         snd (retry_loop env req (Suc attempt)))"
    have "n \<noteq> attempt" using a(1,2) "1.prems"(3) nf by auto
    with eq "1.prems"(2) have mem: "Call n \<in> set (fst (retry_loop env req (Suc attempt)))"
      by auto
    from "1.IH" [OF "1.prems"(1) a(1,2)] a(3) mem "1.prems"(3,4)
    have ih: "last (fst (retry_loop env req (Suc attempt))) = Call n \<and>
      snd (retry_loop env req (Suc attempt)) = Threw (Error (Some KEY_ERROR))"
      by simp
    from mem have "fst (retry_loop env req (Suc attempt)) \<noteq> []" by auto
    with eq ih show ?thesis by simp
  qed
qed

lemma on_processing_error_key:
  "hasApiKey (on_processing_error (Error (Some KEY_ERROR)) st) = False \<and>
   error (on_processing_error (Error (Some KEY_ERROR)) st) = Some MSG_KEY"
  by (simp add: on_processing_error_def KEY_ERROR_def)

text \<open>
  C3. At whatever attempt the endpoint raises an error whose message contains
  "Requested entity was not found", that call is the last event of the run and the client
  throws \<^verbatim>\<open>KEY_ERROR\<close>, whatever budget is left; when it happens at the first attempt
  of a call whose client object exists, the endpoint has been called exactly once. The
  caller, on \<^verbatim>\<open>KEY_ERROR\<close>, sets \<^verbatim>\<open>hasApiKey\<close> to false.
\<close>

theorem key_error_aborts:
  "(\<forall>c n e.
      compressImage env img 1024 0.8 = Resolved c \<and>
      Call n \<in> set (fst (generateFurnitureImage env img f opt)) \<and>
      generateContent env (make_request (build_prompt f opt) (cleanBase64 c)) n = Raises e \<and>
      message_includes e ''Requested entity was not found'' \<longrightarrow>
        last (fst (generateFurnitureImage env img f opt)) = Call n \<and>
        snd (generateFurnitureImage env img f opt) = Inl (Error (Some KEY_ERROR))) \<and>
   (\<forall>c e.
      newGoogleGenAI env (API_KEY env) = None \<and>
      compressImage env img 1024 0.8 = Resolved c \<and>
      generateContent env (make_request (build_prompt f opt) (cleanBase64 c)) 0 = Raises e \<and>
      message_includes e ''Requested entity was not found'' \<longrightarrow>
        generateFurnitureImage env img f opt = ([Call 0], Inl (Error (Some KEY_ERROR)))) \<and>
   (originalImage st = Some img \<and> img \<noteq> [] \<and>
    snd (generateFurnitureImage env img f opt) = Inl (Error (Some KEY_ERROR)) \<longrightarrow>
      hasApiKey (handleFeatureSelect env f opt st) = False \<and>
      error (handleFeatureSelect env f opt st) = Some MSG_KEY)"
proof (intro conjI allI impI)
  fix c n e
  assume a: "compressImage env img 1024 0.8 = Resolved c \<and>
      Call n \<in> set (fst (generateFurnitureImage env img f opt)) \<and>
      generateContent env (make_request (build_prompt f opt) (cleanBase64 c)) n = Raises e \<and>
      message_includes e ''Requested entity was not found''"
  let ?req = "make_request (build_prompt f opt) (cleanBase64 c)"
  have client: "newGoogleGenAI env (API_KEY env) = None"
  proof (cases "newGoogleGenAI env (API_KEY env)")
    case (Some x)
    with a show ?thesis by (simp add: generate_no_client)
  qed simp
  from a have g: "generateFurnitureImage env img f opt =
      (fst (retry_loop env ?req 0), after_loop (snd (retry_loop env ?req 0)))"
    by (simp add: generate_via_loop [OF client])
  from a have t: "try_body env ?req n = Inl e" by (simp add: try_body_Raises)
  from a g have m: "Call n \<in> set (fst (retry_loop env ?req 0))" by simp
  from retry_loop_key_error [OF _ m t] a
  have k: "last (fst (retry_loop env ?req 0)) = Call n \<and>
      snd (retry_loop env ?req 0) = Threw (Error (Some KEY_ERROR))" by simp
  from k g show "last (fst (generateFurnitureImage env img f opt)) = Call n" by simp
  from k g show "snd (generateFurnitureImage env img f opt) = Inl (Error (Some KEY_ERROR))"
    by (simp add: after_loop_def)
next
  fix c e
  assume a: "newGoogleGenAI env (API_KEY env) = None \<and>
      compressImage env img 1024 0.8 = Resolved c \<and>
      generateContent env (make_request (build_prompt f opt) (cleanBase64 c)) 0 = Raises e \<and>
      message_includes e ''Requested entity was not found''"
  let ?req = "make_request (build_prompt f opt) (cleanBase64 c)"
  from a have t: "try_body env ?req 0 = Inl e" by (simp add: try_body_Raises)
  from a have "retry_loop env ?req 0 = ([Call 0], Threw (Error (Some KEY_ERROR)))"
    by (intro retry_loop_throw [OF _ t] catch_block_not_found) simp_all
  with a show "generateFurnitureImage env img f opt = ([Call 0], Inl (Error (Some KEY_ERROR)))"
    by (simp add: generate_via_loop after_loop_def)
next
  assume a: "originalImage st = Some img \<and> img \<noteq> [] \<and>
    snd (generateFurnitureImage env img f opt) = Inl (Error (Some KEY_ERROR))"
  then show "hasApiKey (handleFeatureSelect env f opt st) = False"
    by (simp add: handleFeatureSelect_def Let_def on_processing_error_key)
  from a show "error (handleFeatureSelect env f opt st) = Some MSG_KEY"
    by (simp add: handleFeatureSelect_def Let_def on_processing_error_key)
qed


lemmas run_mock =
  generateFurnitureImage_def newGoogleGenAI_mock compressImage_mock Let_def retry_loop.simps
  try_body_def
  scripted_def always_raises_def read_image_response catch_block_def isRateLimit_def
  message_includes_def str_includes_def sublist_code prefix_code MAX_RETRIES_def
  after_loop_def KEY_ERROR_def

theorem key_error_aborts_witness:
  "compressImage
     (mock_env (scripted [Raises (Error (Some ''fetch failed'')),
                          Raises (Error (Some ''Requested entity was not found.''))]))
     ''data:image/png;base64,iVBORw0KGgo='' 1024 0.8
     = Resolved ''data:image/jpeg;base64,/9j/4AAQ'' \<and>
   newGoogleGenAI (mock_env (always_raises ''Requested entity was not found.''))
     (API_KEY (mock_env (always_raises ''Requested entity was not found.''))) = None \<and>
   message_includes (Error (Some ''Requested entity was not found.''))
     ''Requested entity was not found'' \<and>
   generateFurnitureImage
     (mock_env (scripted [Raises (Error (Some ''fetch failed'')),
                          Raises (Error (Some ''Requested entity was not found.''))]))
     ''data:image/png;base64,iVBORw0KGgo='' MULTI_ANGLE ''Back''
     = ([Call 0, Wait 1000, Call 1], Inl (Error (Some KEY_ERROR))) \<and>
   generateFurnitureImage (mock_env (always_raises ''Requested entity was not found.''))
     ''data:image/png;base64,iVBORw0KGgo='' MULTI_ANGLE ''Back''
     = ([Call 0], Inl (Error (Some KEY_ERROR))) \<and>
   originalImage mock_state = Some ''data:image/png;base64,iVBORw0KGgo='' \<and>
   hasApiKey mock_state \<and>
   \<not> hasApiKey (handleFeatureSelect
       (mock_env (always_raises ''Requested entity was not found.'')) MULTI_ANGLE ''Back''
       mock_state)"
proof -
  let ?img = "''data:image/png;base64,iVBORw0KGgo=''"
  let ?nf = "Error (Some ''Requested entity was not found.'')"
  let ?e1 = "mock_env (scripted [Raises (Error (Some ''fetch failed'')), Raises ?nf])"
  let ?e0 = "mock_env (always_raises ''Requested entity was not found.'')"
  let ?c = "''data:image/jpeg;base64,/9j/4AAQ''"
  let ?req = "make_request (build_prompt MULTI_ANGLE ''Back'') (cleanBase64 ?c)"
  have c1: "compressImage ?e1 ?img 1024 0.8 = Resolved ?c"
    and c0: "compressImage ?e0 ?img 1024 0.8 = Resolved ?c"
    by (simp_all add: compressImage_mock)
  have m: "message_includes ?nf ''Requested entity was not found''"
    by (simp add: message_includes_def str_includes_def sublist_code prefix_code)
  have ev: "fst (generateFurnitureImage ?e1 ?img MULTI_ANGLE ''Back'') = [Call 0, Wait 1000, Call 1]"
    by (simp add: run_mock)
  have r1: "generateContent ?e1 ?req 1 = Raises ?nf" by (simp add: scripted_def)
  have r0: "generateContent ?e0 ?req 0 = Raises ?nf" by (simp add: always_raises_def)
  have st: "originalImage mock_state = Some ?img" "?img \<noteq> []" "hasApiKey mock_state"
    by (simp_all add: mock_state_def)
  note k1 = key_error_aborts [of ?e1 ?img MULTI_ANGLE "''Back''" mock_state]
  note k0 = key_error_aborts [of ?e0 ?img MULTI_ANGLE "''Back''" mock_state]
  from k1 c1 ev r1 m
  have s1: "snd (generateFurnitureImage ?e1 ?img MULTI_ANGLE ''Back'') = Inl (Error (Some KEY_ERROR))"
    by (metis insert_iff list.simps(15))
  have client: "newGoogleGenAI ?e0 (API_KEY ?e0) = None"
    by (rule newGoogleGenAI_mock)
  from k0 client c0 r0 m
  have g0: "generateFurnitureImage ?e0 ?img MULTI_ANGLE ''Back'' = ([Call 0], Inl (Error (Some KEY_ERROR)))"
    by blast
  with k0 st have h: "\<not> hasApiKey (handleFeatureSelect ?e0 MULTI_ANGLE ''Back'' mock_state)"
    by simp
  from ev s1 have g1: "generateFurnitureImage ?e1 ?img MULTI_ANGLE ''Back'' =
      ([Call 0, Wait 1000, Call 1], Inl (Error (Some KEY_ERROR)))"
    by (simp add: prod_eq_iff)
  from c1 client m g1 g0 st h show ?thesis by simp
qed

section \<open>Attempts and waits\<close>

lemma calls_of_retry_loop:
  "prefix (calls_of (fst (retry_loop env req attempt))) [attempt..<Suc MAX_RETRIES]"
proof (induction env req attempt rule: retry_loop.induct)
  case (1 env req attempt)
  show ?case
  proof (cases "attempt \<le> MAX_RETRIES")
    case False
    then show ?thesis by (simp add: retry_loop_exit del: upt_Suc)
  next
    case True
    then have upt: "[attempt..<Suc MAX_RETRIES] = attempt # [Suc attempt..<Suc MAX_RETRIES]"
      by (intro upt_conv_Cons) simp
    from retry_loop_cases [OF True, of env req] show ?thesis
    proof (elim disjE exE conjE)
      fix e ms
      assume a: "try_body env req attempt = Inl e" "catch_block attempt e = Continue ms"
        and eq: "retry_loop env req attempt =
          (Call attempt # Wait ms # fst (retry_loop env req (Suc attempt)),
           snd (retry_loop env req (Suc attempt)))"
      from "1.IH" [OF True a]
      have "prefix (calls_of (fst (retry_loop env req (Suc attempt))))
              [Suc attempt..<Suc MAX_RETRIES]" by simp
      with eq show ?thesis by (simp add: upt del: upt_Suc)
    qed (simp_all add: upt del: upt_Suc)
  qed
qed

lemma catch_block_retry:
  "attempt < MAX_RETRIES \<Longrightarrow> \<not> message_includes e ''Requested entity was not found'' \<Longrightarrow>
   catch_block attempt e =
     Continue (if isRateLimit e then (attempt + 1) * 5000 + 2000 else 1000)"
  by (simp add: catch_block_def)

lemma catch_block_last: "\<exists>x. catch_block MAX_RETRIES e = Throw x"
  by (simp add: catch_block_def)

lemma retry_loop_all_fail:
  assumes "\<forall>n\<le>MAX_RETRIES. try_body env req n = Inl (e n) \<and>
             \<not> message_includes (e n) ''Requested entity was not found''"
  shows "fst (retry_loop env req 0) =
     [Call 0, Wait (if isRateLimit (e 0) then (0 + 1) * 5000 + 2000 else 1000),
      Call 1, Wait (if isRateLimit (e 1) then (1 + 1) * 5000 + 2000 else 1000),
      Call 2]"
proof -
  have t: "try_body env req 0 = Inl (e 0)" "try_body env req 1 = Inl (e 1)"
    "try_body env req 2 = Inl (e 2)"
    and nf: "\<not> message_includes (e 0) ''Requested entity was not found''"
    "\<not> message_includes (e 1) ''Requested entity was not found''"
    using assms by (simp_all add: MAX_RETRIES_def)
  obtain x where x: "catch_block 2 (e 2) = Throw x"
    using catch_block_last [of "e 2"] by (auto simp: MAX_RETRIES_def)
  have l2: "retry_loop env req 2 = ([Call 2], Threw x)"
    by (rule retry_loop_throw [OF _ t(3) x]) (simp add: MAX_RETRIES_def)
  have c1: "catch_block 1 (e 1) =
      Continue (if isRateLimit (e 1) then (1 + 1) * 5000 + 2000 else 1000)"
    by (rule catch_block_retry [OF _ nf(2)]) (simp add: MAX_RETRIES_def)
  have l1: "fst (retry_loop env req 1) =
      [Call 1, Wait (if isRateLimit (e 1) then (1 + 1) * 5000 + 2000 else 1000), Call 2]"
    using retry_loop_continue [OF _ t(2) c1] l2 by (simp add: MAX_RETRIES_def numeral_2_eq_2)
  have c0: "catch_block 0 (e 0) =
      Continue (if isRateLimit (e 0) then (0 + 1) * 5000 + 2000 else 1000)"
    by (rule catch_block_retry [OF _ nf(1)]) (simp add: MAX_RETRIES_def)
  show ?thesis
    using retry_loop_continue [OF _ t(1) c0] l1 by (simp add: MAX_RETRIES_def)
qed

text \<open>
  C1, as the program has it. The endpoint is called at attempt indices that form an
  initial segment of 0, 1, 2, so at most three times. When an attempt below the last
  fails with an error whose message does not contain "Requested entity was not found",
  the program waits \<open>(attempt + 1) * 5000 + 2000\<close> milliseconds if the error is
  rate-limit-class and 1000 milliseconds otherwise, and goes on. An endpoint that raises
  such errors at every attempt is called exactly three times by a call whose client
  object exists, with those two waits in between.
\<close>

theorem retry_policy:
  "prefix (calls_of (fst (generateFurnitureImage env img f opt))) [0, 1, 2] \<and>
   (\<forall>attempt e.
      attempt < MAX_RETRIES \<and> \<not> message_includes e ''Requested entity was not found'' \<longrightarrow>
        catch_block attempt e =
          Continue (if isRateLimit e then (attempt + 1) * 5000 + 2000 else 1000)) \<and>
   (\<forall>c e.
      newGoogleGenAI env (API_KEY env) = None \<and>
      compressImage env img 1024 0.8 = Resolved c \<and>
      (\<forall>n\<le>MAX_RETRIES.
         generateContent env (make_request (build_prompt f opt) (cleanBase64 c)) n = Raises (e n) \<and>
         \<not> message_includes (e n) ''Requested entity was not found'') \<longrightarrow>
        fst (generateFurnitureImage env img f opt) =
          [Call 0, Wait (if isRateLimit (e 0) then (0 + 1) * 5000 + 2000 else 1000),
           Call 1, Wait (if isRateLimit (e 1) then (1 + 1) * 5000 + 2000 else 1000),
           Call 2] \<and>
        calls_of (fst (generateFurnitureImage env img f opt)) = [0, 1, 2])"
proof (intro conjI allI impI)
  show "prefix (calls_of (fst (generateFurnitureImage env img f opt))) [0, 1, 2]"
  proof (cases "newGoogleGenAI env (API_KEY env)")
    case (Some x)
    then show ?thesis by (simp add: generate_no_client)
  next
    case None
    obtain c where c: "compressImage env img 1024 0.8 = Resolved c"
      using compressImage_resolves by blast
    have u: "[0..<Suc MAX_RETRIES] = [0, 1, 2]"
      by (simp add: MAX_RETRIES_def upt_conv_Cons)
    have "prefix (calls_of (fst (retry_loop env
        (make_request (build_prompt f opt) (cleanBase64 c)) 0))) [0, 1, 2]"
      using calls_of_retry_loop [of env "make_request (build_prompt f opt) (cleanBase64 c)" 0]
      unfolding u .
    then show ?thesis
      by (simp add: generate_via_loop [OF None c])
  qed
next
  fix attempt e
  assume "attempt < MAX_RETRIES \<and> \<not> message_includes e ''Requested entity was not found''"
  then show "catch_block attempt e =
          Continue (if isRateLimit e then (attempt + 1) * 5000 + 2000 else 1000)"
    by (simp add: catch_block_retry)
next
  fix c e
  assume a: "newGoogleGenAI env (API_KEY env) = None \<and>
      compressImage env img 1024 0.8 = Resolved c \<and>
      (\<forall>n\<le>MAX_RETRIES.
         generateContent env (make_request (build_prompt f opt) (cleanBase64 c)) n = Raises (e n) \<and>
         \<not> message_includes (e n) ''Requested entity was not found'')"
  let ?req = "make_request (build_prompt f opt) (cleanBase64 c)"
  from a have "\<forall>n\<le>MAX_RETRIES. try_body env ?req n = Inl (e n) \<and>
             \<not> message_includes (e n) ''Requested entity was not found''"
    by (simp add: try_body_Raises)
  from retry_loop_all_fail [OF this] a
  show g: "fst (generateFurnitureImage env img f opt) =
          [Call 0, Wait (if isRateLimit (e 0) then (0 + 1) * 5000 + 2000 else 1000),
           Call 1, Wait (if isRateLimit (e 1) then (1 + 1) * 5000 + 2000 else 1000),
           Call 2]"
    by (simp add: generate_via_loop)
  show "calls_of (fst (generateFurnitureImage env img f opt)) = [0, 1, 2]"
    unfolding g by simp
qed

theorem retry_policy_witness:
  "newGoogleGenAI (mock_env (always_raises ''got status: 429 Too Many Requests''))
     (API_KEY (mock_env (always_raises ''got status: 429 Too Many Requests''))) = None \<and>
   compressImage (mock_env (always_raises ''got status: 429 Too Many Requests''))
     ''data:image/png;base64,iVBORw0KGgo='' 1024 0.8
     = Resolved ''data:image/jpeg;base64,/9j/4AAQ'' \<and>
   isRateLimit (Error (Some ''got status: 429 Too Many Requests'')) \<and>
   \<not> message_includes (Error (Some ''got status: 429 Too Many Requests''))
       ''Requested entity was not found'' \<and>
   (1 :: nat) < MAX_RETRIES \<and>
   catch_block 1 (Error (Some ''got status: 429 Too Many Requests'')) = Continue 12000 \<and>
   catch_block 1 (Error (Some ''fetch failed'')) = Continue 1000 \<and>
   fst (generateFurnitureImage (mock_env (always_raises ''got status: 429 Too Many Requests''))
     ''data:image/png;base64,iVBORw0KGgo='' MULTI_ANGLE ''Back'')
     = [Call 0, Wait 7000, Call 1, Wait 12000, Call 2]"
proof -
  let ?img = "''data:image/png;base64,iVBORw0KGgo=''"
  let ?m = "''got status: 429 Too Many Requests''"
  let ?env = "mock_env (always_raises ?m)"
  let ?c = "''data:image/jpeg;base64,/9j/4AAQ''"
  have c: "compressImage ?env ?img 1024 0.8 = Resolved ?c"
    by (simp add: compressImage_mock)
  have rl: "isRateLimit (Error (Some ?m))"
    by (simp add: isRateLimit_def message_includes_def str_includes_def sublist_code prefix_code)
  have rl': "\<not> isRateLimit (Error (Some ''fetch failed''))"
    by (simp add: isRateLimit_def message_includes_def str_includes_def sublist_code prefix_code)
  have nf: "\<not> message_includes (Error (Some ?m)) ''Requested entity was not found''"
    "\<not> message_includes (Error (Some ''fetch failed'')) ''Requested entity was not found''"
    by (simp_all add: message_includes_def str_includes_def sublist_code prefix_code)
  have lt: "(1 :: nat) < MAX_RETRIES" by (simp add: MAX_RETRIES_def)
  have r: "\<forall>n\<le>MAX_RETRIES.
      generateContent ?env (make_request (build_prompt MULTI_ANGLE ''Back'') (cleanBase64 ?c)) n
        = Raises (Error (Some ?m)) \<and>
      \<not> message_includes (Error (Some ?m)) ''Requested entity was not found''"
    using nf by (simp add: always_raises_def)
  note p = retry_policy [of ?env ?img MULTI_ANGLE "''Back''"]
  from p lt nf rl have k1: "catch_block 1 (Error (Some ?m)) = Continue 12000"
    by auto
  from p lt nf rl' have k2: "catch_block 1 (Error (Some ''fetch failed'')) = Continue 1000"
    by auto
  note p3 = p [THEN conjunct2, THEN conjunct2, rule_format,
      where c = ?c and e = "\<lambda>n. Error (Some ?m)"]
  have client: "newGoogleGenAI ?env (API_KEY ?env) = None"
    by (rule newGoogleGenAI_mock)
  from p3 [THEN conjunct1] client c r rl
  have g: "fst (generateFurnitureImage ?env ?img MULTI_ANGLE ''Back'')
     = [Call 0, Wait 7000, Call 1, Wait 12000, Call 2]"
    by simp
  from client c rl nf lt k1 k2 g show ?thesis by simp
qed

text \<open>
  An endpoint that raises "Requested entity was not found." whenever it is called fails on
  every attempt, and is called once.
\<close>

theorem key_error_endpoint_called_once_counterexample:
  "newGoogleGenAI (mock_env (always_raises ''Requested entity was not found.''))
     (API_KEY (mock_env (always_raises ''Requested entity was not found.''))) = None \<and>
   generateContent (mock_env (always_raises ''Requested entity was not found.''))
     mock_request 0 = Raises (Error (Some ''Requested entity was not found.'')) \<and>
   generateContent (mock_env (always_raises ''Requested entity was not found.''))
     mock_request 1 = Raises (Error (Some ''Requested entity was not found.'')) \<and>
   generateContent (mock_env (always_raises ''Requested entity was not found.''))
     mock_request 2 = Raises (Error (Some ''Requested entity was not found.'')) \<and>
   calls_of (fst (generateFurnitureImage
     (mock_env (always_raises ''Requested entity was not found.''))
     ''data:image/png;base64,iVBORw0KGgo='' MULTI_ANGLE ''Back'')) = [0]"
  by (simp add: run_mock)

section \<open>Rate-limit signals\<close>

lemma delay_neq: "(attempt + 1) * 5000 + 2000 \<noteq> (1000 :: nat)"
  by simp

text \<open>
  C2, as the program has it. For an error whose message does not contain "Requested
  entity was not found", the client takes the backoff delay on a retry exactly when the
  message contains \<^verbatim>\<open>429\<close>, \<^verbatim>\<open>Quota exceeded\<close> or \<^verbatim>\<open>RESOURCE_EXHAUSTED\<close>, and with
  one of these it throws the "overloaded" message at the last attempt. Without any of
  them it waits 1000 milliseconds on a retry, and at the last attempt throws the "too
  large" message or the error itself.
\<close>

theorem rate_limit_signals:
  "\<not> message_includes e ''Requested entity was not found'' \<Longrightarrow>
   (attempt < MAX_RETRIES \<longrightarrow>
      (catch_block attempt e = Continue ((attempt + 1) * 5000 + 2000)) =
      (message_includes e ''429'' \<or> message_includes e ''Quota exceeded'' \<or>
       message_includes e ''RESOURCE_EXHAUSTED'')) \<and>
   (message_includes e ''429'' \<or> message_includes e ''Quota exceeded'' \<or>
    message_includes e ''RESOURCE_EXHAUSTED'' \<longrightarrow>
      catch_block MAX_RETRIES e = Throw (Error (Some MSG_RATE_LIMIT))) \<and>
   (\<not> (message_includes e ''429'' \<or> message_includes e ''Quota exceeded'' \<or>
       message_includes e ''RESOURCE_EXHAUSTED'') \<longrightarrow>
      (attempt < MAX_RETRIES \<longrightarrow> catch_block attempt e = Continue 1000) \<and>
      catch_block MAX_RETRIES e =
        Throw (if message_includes e ''413'' \<or> message_includes e ''too large''
               then Error (Some MSG_TOO_LARGE) else e))"
  using delay_neq [of attempt] by (auto simp: catch_block_def isRateLimit_def)

theorem rate_limit_signals_witness:
  "\<not> message_includes (Error (Some ''got status: 429 Too Many Requests''))
       ''Requested entity was not found'' \<and>
   (0 :: nat) < MAX_RETRIES \<and>
   message_includes (Error (Some ''got status: 429 Too Many Requests'')) ''429'' \<and>
   catch_block 0 (Error (Some ''got status: 429 Too Many Requests'')) = Continue 7000 \<and>
   catch_block MAX_RETRIES (Error (Some ''got status: 429 Too Many Requests''))
     = Throw (Error (Some MSG_RATE_LIMIT)) \<and>
   \<not> (message_includes (Error (Some ''fetch failed'')) ''429'' \<or>
      message_includes (Error (Some ''fetch failed'')) ''Quota exceeded'' \<or>
      message_includes (Error (Some ''fetch failed'')) ''RESOURCE_EXHAUSTED'') \<and>
   catch_block 0 (Error (Some ''fetch failed'')) = Continue 1000 \<and>
   catch_block MAX_RETRIES (Error (Some ''fetch failed'')) = Throw (Error (Some ''fetch failed''))"
proof -
  let ?a = "Error (Some ''got status: 429 Too Many Requests'')"
  let ?b = "Error (Some ''fetch failed'')"
  have nf: "\<not> message_includes ?a ''Requested entity was not found''"
    "\<not> message_includes ?b ''Requested entity was not found''"
    by (simp_all add: message_includes_def str_includes_def sublist_code prefix_code)
  have lt: "(0 :: nat) < MAX_RETRIES" by (simp add: MAX_RETRIES_def)
  have s: "message_includes ?a ''429''"
    by (simp add: message_includes_def str_includes_def sublist_code prefix_code)
  have ns: "\<not> (message_includes ?b ''429'' \<or> message_includes ?b ''Quota exceeded'' \<or>
      message_includes ?b ''RESOURCE_EXHAUSTED'')"
    "\<not> (message_includes ?b ''413'' \<or> message_includes ?b ''too large'')"
    by (simp_all add: message_includes_def str_includes_def sublist_code prefix_code)
  from rate_limit_signals [OF nf(1), of 0] lt s
  have a: "catch_block 0 ?a = Continue 7000"
    "catch_block MAX_RETRIES ?a = Throw (Error (Some MSG_RATE_LIMIT))"
    by simp_all
  from rate_limit_signals [OF nf(2), of 0] lt ns
  have b: "catch_block 0 ?b = Continue 1000" "catch_block MAX_RETRIES ?b = Throw ?b"
    by simp_all
  from nf lt s a ns b show ?thesis by simp
qed

text \<open>
  A message with \<^verbatim>\<open>quota\<close>, \<^verbatim>\<open>exhausted\<close> and \<^verbatim>\<open>Resource has been exhausted\<close> in it
  is not rate-limit-class for the client: the waits are 1000 milliseconds and the error
  comes back as it is.
\<close>

theorem exhausted_signal_not_rate_limit_counterexample:
  "str_includes ''Resource has been exhausted (e.g. check quota).'' ''quota'' \<and>
   str_includes ''Resource has been exhausted (e.g. check quota).'' ''exhausted'' \<and>
   str_includes ''Resource has been exhausted (e.g. check quota).''
     ''Resource has been exhausted'' \<and>
   \<not> isRateLimit (Error (Some ''Resource has been exhausted (e.g. check quota).'')) \<and>
   generateFurnitureImage
     (mock_env (always_raises ''Resource has been exhausted (e.g. check quota).''))
     ''data:image/png;base64,iVBORw0KGgo='' MULTI_ANGLE ''Back''
   = ([Call 0, Wait 1000, Call 1, Wait 1000, Call 2],
      Inl (Error (Some ''Resource has been exhausted (e.g. check quota).'')))"
  by (simp add: run_mock)

section \<open>The errors the client throws\<close>

lemma catch_block_Throw_cases:
  assumes "catch_block attempt e = Throw x"
  shows "x = Error (Some KEY_ERROR) \<or>
         (\<not> attempt < MAX_RETRIES \<and>
          (x = Error (Some MSG_RATE_LIMIT) \<or> x = Error (Some MSG_TOO_LARGE) \<or>
           (x = e \<and> \<not> isRateLimit e \<and> \<not> message_includes e ''413'' \<and>
            \<not> message_includes e ''too large'' \<and>
            \<not> message_includes e ''Requested entity was not found'')))"
  using assms by (auto simp: catch_block_def split: if_splits)

lemma retry_loop_Threw:
  "attempt \<le> MAX_RETRIES \<Longrightarrow> snd (retry_loop env req attempt) = Threw x \<Longrightarrow>
   x = Error (Some KEY_ERROR) \<or> x = Error (Some MSG_RATE_LIMIT) \<or>
   x = Error (Some MSG_TOO_LARGE) \<or>
   (try_body env req MAX_RETRIES = Inl x \<and> \<not> isRateLimit x \<and>
    \<not> message_includes x ''413'' \<and> \<not> message_includes x ''too large'' \<and>
    \<not> message_includes x ''Requested entity was not found'')"
proof (induction env req attempt rule: retry_loop.induct)
  case (1 env req attempt)
  from retry_loop_cases [OF "1.prems"(1), of env req] show ?case
  proof (elim disjE exE conjE)
    fix r
    assume "retry_loop env req attempt = ([Call attempt], Returned r)"
    with "1.prems"(2) show ?thesis by simp
  next
    fix e y
    assume a: "try_body env req attempt = Inl e" "catch_block attempt e = Throw y"
      "retry_loop env req attempt = ([Call attempt], Threw y)"
    with "1.prems"(2) have y: "y = x" by simp
    from catch_block_Throw_cases [OF a(2)] "1.prems"(1) a(1) show ?thesis
      unfolding y by (auto simp: not_less)
  next
    fix e ms
    assume a: "try_body env req attempt = Inl e" "catch_block attempt e = Continue ms"
      "Suc attempt \<le> MAX_RETRIES"
      and eq: "retry_loop env req attempt =
        (Call attempt # Wait ms # fst (retry_loop env req (Suc attempt)),
         snd (retry_loop env req (Suc attempt)))"
    from eq "1.prems"(2) have "snd (retry_loop env req (Suc attempt)) = Threw x" by simp
    with "1.IH" [OF "1.prems"(1) a(1,2)] a(3) show ?thesis by simp
  qed
qed

lemma read_response_Inl:
  "read_response env resp = Inl x \<Longrightarrow>
   x = Error (Some MSG_NO_IMAGE) \<or> (\<exists>site. x = Error (Some (typeErrorMessage env site)))"
  by (auto simp: read_response_def split: option.splits list.splits)

lemma try_body_Inl:
  "try_body env req n = Inl x \<Longrightarrow>
   generateContent env req n = Raises x \<or> x = Error (Some MSG_NO_IMAGE) \<or>
   (\<exists>site. x = Error (Some (typeErrorMessage env site)))"
  by (auto simp: try_body_def split: endpoint_outcome.splits dest: read_response_Inl)

lemma generate_Inl:
  assumes k: "newGoogleGenAI env (API_KEY env) = None"
    and c: "compressImage env img 1024 0.8 = Resolved c"
    and g: "snd (generateFurnitureImage env img f opt) = Inl x"
  shows "snd (retry_loop env (make_request (build_prompt f opt) (cleanBase64 c)) 0) = Threw x"
proof -
  let ?L = "retry_loop env (make_request (build_prompt f opt) (cleanBase64 c)) 0"
  have "snd ?L \<noteq> FellThrough" by (rule retry_loop_not_FellThrough) simp
  with g show ?thesis
    unfolding generate_via_loop [OF k c] by (cases "snd ?L") (simp_all add: after_loop_def)
qed

text \<open>What the caller shows for an error, by its message.\<close>

lemma MSG_DEFAULT_unmatched:
  "MSG_DEFAULT \<noteq> [] \<and> MSG_DEFAULT \<noteq> KEY_ERROR \<and>
   \<not> str_includes MSG_DEFAULT ''429'' \<and> \<not> str_includes MSG_DEFAULT ''quota'' \<and>
   \<not> str_includes MSG_DEFAULT ''exhausted'' \<and>
   \<not> str_includes MSG_DEFAULT ''Resource has been exhausted''"
  by (simp add: MSG_DEFAULT_def KEY_ERROR_def str_includes_def sublist_code prefix_code)

lemma handleFeatureSelect_error:
  assumes "originalImage st = Some img" "img \<noteq> []"
    and "snd (generateFurnitureImage env img f opt) = Inl x"
  shows "error (handleFeatureSelect env f opt st) = error (on_processing_error x st)"
  using assms by (simp add: handleFeatureSelect_def on_processing_error_def Let_def)

lemma shown_default:
  "message x = None \<or> message x = Some [] \<Longrightarrow>
   error (on_processing_error x st) = Some MSG_DEFAULT"
  using MSG_DEFAULT_unmatched by (auto simp: on_processing_error_def)

lemma shown_key:
  "message x = Some KEY_ERROR \<Longrightarrow> error (on_processing_error x st) = Some MSG_KEY"
  by (simp add: on_processing_error_def KEY_ERROR_def)

lemma shown_matched:
  "message x = Some m \<Longrightarrow> m \<noteq> [] \<Longrightarrow> m \<noteq> KEY_ERROR \<Longrightarrow>
   str_includes m ''429'' \<or> str_includes m ''quota'' \<or> str_includes m ''exhausted'' \<or>
   str_includes m ''Resource has been exhausted'' \<Longrightarrow>
   error (on_processing_error x st) =
     Some (if str_includes m ''limit: 0'' \<or> str_includes m ''limit:0''
           then MSG_BILLING else MSG_BUSY)"
  by (auto simp: on_processing_error_def)

lemma shown_as_received:
  "message x = Some m \<Longrightarrow> m \<noteq> [] \<Longrightarrow> m \<noteq> KEY_ERROR \<Longrightarrow>
   \<not> (str_includes m ''429'' \<or> str_includes m ''quota'' \<or> str_includes m ''exhausted'' \<or>
      str_includes m ''Resource has been exhausted'') \<Longrightarrow>
   error (on_processing_error x st) = Some m"
  by (simp add: on_processing_error_def)

text \<open>
  C6, as the program has it. An error the client throws is the error of the client
  object's constructor, thrown before any attempt; or \<^verbatim>\<open>KEY_ERROR\<close>, the "overloaded"
  message, the "too large" message; or the error of the last attempt itself, thrown
  again unchanged when it belongs to none of these classes. The error of an attempt is
  what the endpoint raised, the "no image" message, or the engine's \<^verbatim>\<open>TypeError\<close>.
  The caller classifies what it receives by its text: for an absent or empty message it
  shows its default message, for \<^verbatim>\<open>KEY_ERROR\<close> its message about the account, for a
  message containing \<^verbatim>\<open>429\<close>, \<^verbatim>\<open>quota\<close>, \<^verbatim>\<open>exhausted\<close> or
  \<^verbatim>\<open>Resource has been exhausted\<close> its "billing" or "busy" message, and any other
  message as it received it.
\<close>

theorem surfaced_errors:
  "(\<forall>x. snd (generateFurnitureImage env img f opt) = Inl x \<longrightarrow>
      newGoogleGenAI env (API_KEY env) = Some x \<or>
      x = Error (Some KEY_ERROR) \<or> x = Error (Some MSG_RATE_LIMIT) \<or>
      x = Error (Some MSG_TOO_LARGE) \<or>
      (\<exists>c. compressImage env img 1024 0.8 = Resolved c \<and>
           try_body env (make_request (build_prompt f opt) (cleanBase64 c)) MAX_RETRIES = Inl x \<and>
           \<not> isRateLimit x \<and> \<not> message_includes x ''413'' \<and>
           \<not> message_includes x ''too large'' \<and>
           \<not> message_includes x ''Requested entity was not found'')) \<and>
   (\<forall>x. newGoogleGenAI env (API_KEY env) = Some x \<longrightarrow>
      generateFurnitureImage env img f opt = ([], Inl x)) \<and>
   (\<forall>req n x. try_body env req n = Inl x \<longrightarrow>
      generateContent env req n = Raises x \<or> x = Error (Some MSG_NO_IMAGE) \<or>
      (\<exists>site. x = Error (Some (typeErrorMessage env site)))) \<and>
   (\<forall>x. originalImage st = Some img \<and> img \<noteq> [] \<and>
        snd (generateFurnitureImage env img f opt) = Inl x \<and>
        (message x = None \<or> message x = Some []) \<longrightarrow>
      error (handleFeatureSelect env f opt st) = Some MSG_DEFAULT) \<and>
   (\<forall>x. originalImage st = Some img \<and> img \<noteq> [] \<and>
        snd (generateFurnitureImage env img f opt) = Inl x \<and>
        message x = Some KEY_ERROR \<longrightarrow>
      error (handleFeatureSelect env f opt st) = Some MSG_KEY) \<and>
   (\<forall>x m. originalImage st = Some img \<and> img \<noteq> [] \<and>
        snd (generateFurnitureImage env img f opt) = Inl x \<and>
        message x = Some m \<and> m \<noteq> [] \<and> m \<noteq> KEY_ERROR \<and>
        (str_includes m ''429'' \<or> str_includes m ''quota'' \<or> str_includes m ''exhausted'' \<or>
         str_includes m ''Resource has been exhausted'') \<longrightarrow>
      error (handleFeatureSelect env f opt st) =
        Some (if str_includes m ''limit: 0'' \<or> str_includes m ''limit:0''
              then MSG_BILLING else MSG_BUSY)) \<and>
   (\<forall>x m. originalImage st = Some img \<and> img \<noteq> [] \<and>
        snd (generateFurnitureImage env img f opt) = Inl x \<and>
        message x = Some m \<and> m \<noteq> [] \<and> m \<noteq> KEY_ERROR \<and>
        \<not> (str_includes m ''429'' \<or> str_includes m ''quota'' \<or> str_includes m ''exhausted'' \<or>
           str_includes m ''Resource has been exhausted'') \<longrightarrow>
      error (handleFeatureSelect env f opt st) = Some m)"
proof (intro conjI allI impI)
  fix x
  assume g: "snd (generateFurnitureImage env img f opt) = Inl x"
  show "newGoogleGenAI env (API_KEY env) = Some x \<or>
      x = Error (Some KEY_ERROR) \<or> x = Error (Some MSG_RATE_LIMIT) \<or>
      x = Error (Some MSG_TOO_LARGE) \<or>
      (\<exists>c. compressImage env img 1024 0.8 = Resolved c \<and>
           try_body env (make_request (build_prompt f opt) (cleanBase64 c)) MAX_RETRIES = Inl x \<and>
           \<not> isRateLimit x \<and> \<not> message_includes x ''413'' \<and>
           \<not> message_includes x ''too large'' \<and>
           \<not> message_includes x ''Requested entity was not found'')"
  proof (cases "newGoogleGenAI env (API_KEY env)")
    case (Some e)
    with g show ?thesis by (simp add: generate_no_client)
  next
    case None
    obtain c where c: "compressImage env img 1024 0.8 = Resolved c"
      using compressImage_resolves by blast
    from retry_loop_Threw [OF _ generate_Inl [OF None c g]] c
    show ?thesis by auto
  qed
next
  fix x
  assume "newGoogleGenAI env (API_KEY env) = Some x"
  then show "generateFurnitureImage env img f opt = ([], Inl x)"
    by (rule generate_no_client)
next
  fix req n x
  assume "try_body env req n = Inl x"
  then show "generateContent env req n = Raises x \<or> x = Error (Some MSG_NO_IMAGE) \<or>
      (\<exists>site. x = Error (Some (typeErrorMessage env site)))"
    by (rule try_body_Inl)
next
  fix x
  assume a: "originalImage st = Some img \<and> img \<noteq> [] \<and>
        snd (generateFurnitureImage env img f opt) = Inl x \<and>
        (message x = None \<or> message x = Some [])"
  have "error (handleFeatureSelect env f opt st) = error (on_processing_error x st)"
    by (rule handleFeatureSelect_error
        [OF a [THEN conjunct1] a [THEN conjunct2, THEN conjunct1]
          a [THEN conjunct2, THEN conjunct2, THEN conjunct1]])
  with a show "error (handleFeatureSelect env f opt st) = Some MSG_DEFAULT"
    by (simp add: shown_default)
next
  fix x
  assume a: "originalImage st = Some img \<and> img \<noteq> [] \<and>
        snd (generateFurnitureImage env img f opt) = Inl x \<and>
        message x = Some KEY_ERROR"
  have "error (handleFeatureSelect env f opt st) = error (on_processing_error x st)"
    by (rule handleFeatureSelect_error
        [OF a [THEN conjunct1] a [THEN conjunct2, THEN conjunct1]
          a [THEN conjunct2, THEN conjunct2, THEN conjunct1]])
  with a show "error (handleFeatureSelect env f opt st) = Some MSG_KEY"
    by (simp add: shown_key)
next
  fix x m
  assume a: "originalImage st = Some img \<and> img \<noteq> [] \<and>
        snd (generateFurnitureImage env img f opt) = Inl x \<and>
        message x = Some m \<and> m \<noteq> [] \<and> m \<noteq> KEY_ERROR \<and>
        (str_includes m ''429'' \<or> str_includes m ''quota'' \<or> str_includes m ''exhausted'' \<or>
         str_includes m ''Resource has been exhausted'')"
  have "error (handleFeatureSelect env f opt st) = error (on_processing_error x st)"
    by (rule handleFeatureSelect_error
        [OF a [THEN conjunct1] a [THEN conjunct2, THEN conjunct1]
          a [THEN conjunct2, THEN conjunct2, THEN conjunct1]])
  moreover have "error (on_processing_error x st) =
        Some (if str_includes m ''limit: 0'' \<or> str_includes m ''limit:0''
              then MSG_BILLING else MSG_BUSY)"
    by (rule shown_matched) (use a in simp_all)
  ultimately show "error (handleFeatureSelect env f opt st) =
        Some (if str_includes m ''limit: 0'' \<or> str_includes m ''limit:0''
              then MSG_BILLING else MSG_BUSY)"
    by simp
next
  fix x m
  assume a: "originalImage st = Some img \<and> img \<noteq> [] \<and>
        snd (generateFurnitureImage env img f opt) = Inl x \<and>
        message x = Some m \<and> m \<noteq> [] \<and> m \<noteq> KEY_ERROR \<and>
        \<not> (str_includes m ''429'' \<or> str_includes m ''quota'' \<or> str_includes m ''exhausted'' \<or>
           str_includes m ''Resource has been exhausted'')"
  have "error (handleFeatureSelect env f opt st) = error (on_processing_error x st)"
    by (rule handleFeatureSelect_error
        [OF a [THEN conjunct1] a [THEN conjunct2, THEN conjunct1]
          a [THEN conjunct2, THEN conjunct2, THEN conjunct1]])
  moreover have "error (on_processing_error x st) = Some m"
    by (rule shown_as_received) (use a in simp_all)
  ultimately show "error (handleFeatureSelect env f opt st) = Some m"
    by simp
qed

lemmas run_caller =
  handleFeatureSelect_def on_processing_error_def mock_state_def

text \<open>
  An endpoint that keeps raising "Failed to fetch" makes the client throw that very
  error, which is neither \<^verbatim>\<open>KEY_ERROR\<close> nor one of the client's messages, and the
  caller shows it as it is. When the endpoint's text mentions \<^verbatim>\<open>quota\<close>, the caller
  recognises the provider's text itself and shows its "busy" message.
\<close>

theorem raw_error_surfaced_counterexample:
  "generateFurnitureImage (mock_env (always_raises ''Failed to fetch''))
     ''data:image/png;base64,iVBORw0KGgo='' MULTI_ANGLE ''Back''
   = ([Call 0, Wait 1000, Call 1, Wait 1000, Call 2], Inl (Error (Some ''Failed to fetch''))) \<and>
   ''Failed to fetch'' \<noteq> KEY_ERROR \<and> ''Failed to fetch'' \<noteq> MSG_RATE_LIMIT \<and>
   ''Failed to fetch'' \<noteq> MSG_TOO_LARGE \<and> ''Failed to fetch'' \<noteq> MSG_NO_IMAGE \<and>
   ''Failed to fetch'' \<noteq> MSG_GIVE_UP \<and>
   error (handleFeatureSelect (mock_env (always_raises ''Failed to fetch''))
     MULTI_ANGLE ''Back'' mock_state) = Some ''Failed to fetch'' \<and>
   generateFurnitureImage (mock_env (always_raises ''Your project has run out of quota.''))
     ''data:image/png;base64,iVBORw0KGgo='' MULTI_ANGLE ''Back''
   = ([Call 0, Wait 1000, Call 1, Wait 1000, Call 2],
      Inl (Error (Some ''Your project has run out of quota.''))) \<and>
   error (handleFeatureSelect (mock_env (always_raises ''Your project has run out of quota.''))
     MULTI_ANGLE ''Back'' mock_state) = Some MSG_BUSY"
proof -
  have g1: "generateFurnitureImage (mock_env (always_raises ''Failed to fetch''))
     ''data:image/png;base64,iVBORw0KGgo='' MULTI_ANGLE ''Back''
   = ([Call 0, Wait 1000, Call 1, Wait 1000, Call 2], Inl (Error (Some ''Failed to fetch'')))"
    by (simp add: run_mock)
  have g2: "generateFurnitureImage (mock_env (always_raises ''Your project has run out of quota.''))
     ''data:image/png;base64,iVBORw0KGgo='' MULTI_ANGLE ''Back''
   = ([Call 0, Wait 1000, Call 1, Wait 1000, Call 2],
      Inl (Error (Some ''Your project has run out of quota.'')))"
    by (simp add: run_mock)
  have n: "''Failed to fetch'' \<noteq> KEY_ERROR" "''Failed to fetch'' \<noteq> MSG_RATE_LIMIT"
    "''Failed to fetch'' \<noteq> MSG_TOO_LARGE" "''Failed to fetch'' \<noteq> MSG_NO_IMAGE"
    "''Failed to fetch'' \<noteq> MSG_GIVE_UP"
    by (simp_all add: KEY_ERROR_def MSG_RATE_LIMIT_def MSG_TOO_LARGE_def MSG_NO_IMAGE_def
        MSG_GIVE_UP_def)
  have h1: "error (handleFeatureSelect (mock_env (always_raises ''Failed to fetch''))
     MULTI_ANGLE ''Back'' mock_state) = Some ''Failed to fetch''"
    by (simp add: run_caller g1 KEY_ERROR_def str_includes_def sublist_code prefix_code)
  have h2: "error (handleFeatureSelect
     (mock_env (always_raises ''Your project has run out of quota.''))
     MULTI_ANGLE ''Back'' mock_state) = Some MSG_BUSY"
    by (simp add: run_caller g2 KEY_ERROR_def str_includes_def sublist_code prefix_code)
  from g1 n h1 g2 h2 show ?thesis by simp
qed

theorem surfaced_errors_witness:
  "snd (generateFurnitureImage (mock_env (always_raises ''Failed to fetch''))
     ''data:image/png;base64,iVBORw0KGgo='' MULTI_ANGLE ''Back'')
     = Inl (Error (Some ''Failed to fetch'')) \<and>
   try_body (mock_env (always_raises ''Failed to fetch''))
     (make_request (build_prompt MULTI_ANGLE ''Back'')
        (cleanBase64 ''data:image/jpeg;base64,/9j/4AAQ'')) MAX_RETRIES
     = Inl (Error (Some ''Failed to fetch'')) \<and>
   generateContent (mock_env (always_raises ''Failed to fetch''))
     (make_request (build_prompt MULTI_ANGLE ''Back'')
        (cleanBase64 ''data:image/jpeg;base64,/9j/4AAQ'')) MAX_RETRIES
     = Raises (Error (Some ''Failed to fetch'')) \<and>
   error (handleFeatureSelect (mock_env (always_raises ''Failed to fetch''))
     MULTI_ANGLE ''Back'' mock_state) = Some ''Failed to fetch'' \<and>
   newGoogleGenAI (mock_env_no_key (always_raises ''Failed to fetch''))
     (API_KEY (mock_env_no_key (always_raises ''Failed to fetch'')))
     = Some (Error (Some MSG_NO_KEY)) \<and>
   generateFurnitureImage (mock_env_no_key (always_raises ''Failed to fetch''))
     ''data:image/png;base64,iVBORw0KGgo='' MULTI_ANGLE ''Back''
     = ([], Inl (Error (Some MSG_NO_KEY))) \<and>
   snd (generateFurnitureImage (mock_env (always_raises ''Your project has run out of quota.''))
     ''data:image/png;base64,iVBORw0KGgo='' MULTI_ANGLE ''Back'')
     = Inl (Error (Some ''Your project has run out of quota.'')) \<and>
   str_includes ''Your project has run out of quota.'' ''quota'' \<and>
   error (handleFeatureSelect (mock_env (always_raises ''Your project has run out of quota.''))
     MULTI_ANGLE ''Back'' mock_state) = Some MSG_BUSY \<and>
   snd (generateFurnitureImage (mock_env (always_raises []))
     ''data:image/png;base64,iVBORw0KGgo='' MULTI_ANGLE ''Back'') = Inl (Error (Some [])) \<and>
   error (handleFeatureSelect (mock_env (always_raises [])) MULTI_ANGLE ''Back'' mock_state)
     = Some MSG_DEFAULT \<and>
   snd (generateFurnitureImage (mock_env (always_raises ''Requested entity was not found.''))
     ''data:image/png;base64,iVBORw0KGgo='' MULTI_ANGLE ''Back'')
     = Inl (Error (Some KEY_ERROR)) \<and>
   error (handleFeatureSelect (mock_env (always_raises ''Requested entity was not found.''))
     MULTI_ANGLE ''Back'' mock_state) = Some MSG_KEY"
proof -
  let ?env = "mock_env (always_raises ''Failed to fetch'')"
  let ?img = "''data:image/png;base64,iVBORw0KGgo=''"
  let ?x = "Error (Some ''Failed to fetch'')"
  let ?req = "make_request (build_prompt MULTI_ANGLE ''Back'')
        (cleanBase64 ''data:image/jpeg;base64,/9j/4AAQ'')"
  let ?q = "''Your project has run out of quota.''"
  let ?enva = "mock_env_no_key (always_raises ''Failed to fetch'')"
  let ?envc = "mock_env (always_raises ?q)"
  let ?envb = "mock_env (always_raises [])"
  let ?envf = "mock_env (always_raises ''Requested entity was not found.'')"
  note s = surfaced_errors [of ?env ?img MULTI_ANGLE "''Back''" mock_state]
  note sk = surfaced_errors [of ?enva ?img MULTI_ANGLE "''Back''" mock_state]
  note sq = surfaced_errors [of ?envc ?img MULTI_ANGLE "''Back''" mock_state]
  note s0 = surfaced_errors [of ?envb ?img MULTI_ANGLE "''Back''" mock_state]
  note sn = surfaced_errors [of ?envf ?img MULTI_ANGLE "''Back''" mock_state]
  have st: "originalImage mock_state = Some ?img" "?img \<noteq> []"
    by (simp_all add: mock_state_def)
  have g: "snd (generateFurnitureImage ?env ?img MULTI_ANGLE ''Back'') = Inl ?x"
    by (simp add: run_mock)
  have n: "?x \<noteq> Error (Some KEY_ERROR)" "?x \<noteq> Error (Some MSG_RATE_LIMIT)"
    "?x \<noteq> Error (Some MSG_TOO_LARGE)" "?x \<noteq> Error (Some MSG_NO_IMAGE)"
    by (simp_all add: KEY_ERROR_def MSG_RATE_LIMIT_def MSG_TOO_LARGE_def MSG_NO_IMAGE_def)
  have client: "newGoogleGenAI ?env (API_KEY ?env) \<noteq> Some ?x"
    by (simp add: newGoogleGenAI_mock)
  from s [THEN conjunct1, rule_format, OF g] n client
  obtain c where c: "compressImage ?env ?img 1024 0.8 = Resolved c"
    and tc: "try_body ?env (make_request (build_prompt MULTI_ANGLE ''Back'') (cleanBase64 c))
      MAX_RETRIES = Inl ?x"
    by blast
  from c have "c = ''data:image/jpeg;base64,/9j/4AAQ''"
    unfolding compressImage_mock by simp
  with tc have t: "try_body ?env ?req MAX_RETRIES = Inl ?x" by simp
  have te: "?x \<noteq> Error (Some (typeErrorMessage ?env site))" for site
    by (simp add: mock_env_def)
  from s [THEN conjunct2, THEN conjunct2, THEN conjunct1, rule_format, OF t] n(4) te
  have r: "generateContent ?env ?req MAX_RETRIES = Raises ?x"
    by blast
  have u: "''Failed to fetch'' \<noteq> []" "''Failed to fetch'' \<noteq> KEY_ERROR"
    "\<not> (str_includes ''Failed to fetch'' ''429'' \<or> str_includes ''Failed to fetch'' ''quota'' \<or>
       str_includes ''Failed to fetch'' ''exhausted'' \<or>
       str_includes ''Failed to fetch'' ''Resource has been exhausted'')"
    by (simp_all add: KEY_ERROR_def str_includes_def sublist_code prefix_code)
  have h: "error (handleFeatureSelect ?env MULTI_ANGLE ''Back'' mock_state)
      = Some ''Failed to fetch''"
    by (rule s [THEN conjunct2, THEN conjunct2, THEN conjunct2, THEN conjunct2,
          THEN conjunct2, THEN conjunct2, rule_format, of ?x]) (simp add: st g u)
  have k: "newGoogleGenAI ?enva (API_KEY ?enva) = Some (Error (Some MSG_NO_KEY))"
    by (rule newGoogleGenAI_mock)
  from sk [THEN conjunct2, THEN conjunct1, rule_format, OF k]
  have gk: "generateFurnitureImage ?enva ?img MULTI_ANGLE ''Back''
      = ([], Inl (Error (Some MSG_NO_KEY)))" .
  have gq: "snd (generateFurnitureImage ?envc ?img MULTI_ANGLE ''Back'') = Inl (Error (Some ?q))"
    by (simp add: run_mock)
  have q: "?q \<noteq> []" "?q \<noteq> KEY_ERROR" "str_includes ?q ''quota''"
    "\<not> (str_includes ?q ''limit: 0'' \<or> str_includes ?q ''limit:0'')"
    by (simp_all add: KEY_ERROR_def str_includes_def sublist_code prefix_code)
  have "error (handleFeatureSelect ?envc MULTI_ANGLE ''Back'' mock_state) =
      Some (if str_includes ?q ''limit: 0'' \<or> str_includes ?q ''limit:0''
            then MSG_BILLING else MSG_BUSY)"
    by (rule sq [THEN conjunct2, THEN conjunct2, THEN conjunct2, THEN conjunct2,
          THEN conjunct2, THEN conjunct1, rule_format, of "Error (Some ?q)"])
      (simp add: st gq q)
  with q have hq: "error (handleFeatureSelect ?envc MULTI_ANGLE ''Back'' mock_state)
      = Some MSG_BUSY"
    by simp
  have g0: "snd (generateFurnitureImage ?envb ?img MULTI_ANGLE ''Back'') = Inl (Error (Some []))"
    by (simp add: run_mock)
  have h0: "error (handleFeatureSelect ?envb MULTI_ANGLE ''Back'' mock_state) = Some MSG_DEFAULT"
    by (rule s0 [THEN conjunct2, THEN conjunct2, THEN conjunct2, THEN conjunct1,
          rule_format, of "Error (Some [])"]) (simp add: st g0)
  have gn: "snd (generateFurnitureImage ?envf ?img MULTI_ANGLE ''Back'')
      = Inl (Error (Some KEY_ERROR))"
    by (simp add: run_mock)
  have hn: "error (handleFeatureSelect ?envf MULTI_ANGLE ''Back'' mock_state) = Some MSG_KEY"
    by (rule sn [THEN conjunct2, THEN conjunct2, THEN conjunct2, THEN conjunct2,
          THEN conjunct1, rule_format, of "Error (Some KEY_ERROR)"]) (simp add: st gn)
  from g t r h k gk gq q hq g0 h0 gn hn show ?thesis by simp
qed

section \<open>When an attempt succeeds\<close>

lemma inline_image_Some_iff:
  "inline_image p = Some d \<longleftrightarrow> d \<noteq> [] \<and> (\<exists>b. inlineData p = Some b \<and> data b = Some d)"
  by (auto simp: inline_image_def split: option.splits)

lemma scan_parts_Some_iff:
  "scan_parts ps = Some d \<longleftrightarrow>
   (\<exists>pre p post. ps = pre @ p # post \<and> (\<forall>q\<in>set pre. inline_image q = None) \<and>
      inline_image p = Some d)"
proof (induction ps)
  case Nil
  then show ?case by simp
next
  case (Cons a ps)
  show ?case
  proof (cases "inline_image a")
    case (Some d')
    have "(\<exists>pre p post. a # ps = pre @ p # post \<and> (\<forall>q\<in>set pre. inline_image q = None) \<and>
        inline_image p = Some d) \<longleftrightarrow> d' = d"
    proof
      assume "\<exists>pre p post. a # ps = pre @ p # post \<and>
        (\<forall>q\<in>set pre. inline_image q = None) \<and> inline_image p = Some d"
      then obtain pre p post where e: "a # ps = pre @ p # post"
        and n: "\<forall>q\<in>set pre. inline_image q = None" and s: "inline_image p = Some d"
        by blast
      show "d' = d"
      proof (cases pre)
        case Nil
        with e s Some show ?thesis by simp
      next
        case (Cons b pre')
        with e n Some show ?thesis by simp
      qed
    next
      assume "d' = d"
      with Some have "a # ps = [] @ a # ps \<and> (\<forall>q\<in>set []. inline_image q = None) \<and>
        inline_image a = Some d" by simp
      then show "\<exists>pre p post. a # ps = pre @ p # post \<and>
        (\<forall>q\<in>set pre. inline_image q = None) \<and> inline_image p = Some d"
        by blast
    qed
    with Some show ?thesis by simp
  next
    case None
    have "(\<exists>pre p post. a # ps = pre @ p # post \<and> (\<forall>q\<in>set pre. inline_image q = None) \<and>
        inline_image p = Some d) \<longleftrightarrow>
      (\<exists>pre p post. ps = pre @ p # post \<and> (\<forall>q\<in>set pre. inline_image q = None) \<and>
        inline_image p = Some d)" (is "?L \<longleftrightarrow> ?R")
    proof
      assume ?L
      then obtain pre p post where e: "a # ps = pre @ p # post"
        and n: "\<forall>q\<in>set pre. inline_image q = None" and s: "inline_image p = Some d"
        by blast
      show ?R
      proof (cases pre)
        case Nil
        with e s None show ?thesis by simp
      next
        case (Cons b pre')
        with e n s have "ps = pre' @ p # post \<and> (\<forall>q\<in>set pre'. inline_image q = None) \<and>
          inline_image p = Some d" by simp
        then show ?thesis by blast
      qed
    next
      assume ?R
      then obtain pre p post where e: "ps = pre @ p # post"
        and n: "\<forall>q\<in>set pre. inline_image q = None" and s: "inline_image p = Some d"
        by blast
      with None have "a # ps = (a # pre) @ p # post \<and>
        (\<forall>q\<in>set (a # pre). inline_image q = None) \<and> inline_image p = Some d" by simp
      then show ?L by blast
    qed
    with None Cons.IH show ?thesis by simp
  qed
qed

lemma read_response_Inr_iff:
  "read_response env resp = Inr r \<longleftrightarrow>
   (\<exists>c cs ct ps d. candidates resp = Some (c # cs) \<and> content c = Some ct \<and>
      parts ct = Some ps \<and> scan_parts ps = Some d \<and> r = make_result d)"
  by (auto simp: read_response_def split: option.splits list.splits)

lemma try_body_Inr_iff:
  "try_body env req n = Inr r \<longleftrightarrow>
   (\<exists>resp c cs ct ps d. generateContent env req n = Responds resp \<and>
      candidates resp = Some (c # cs) \<and> content c = Some ct \<and>
      parts ct = Some ps \<and> scan_parts ps = Some d \<and> r = make_result d)"
  by (cases "generateContent env req n") (auto simp: try_body_def read_response_Inr_iff)

lemma read_response_no_image:
  "candidates resp = None \<or> candidates resp = Some [] \<or>
   (\<exists>c cs ct ps. candidates resp = Some (c # cs) \<and> content c = Some ct \<and>
      parts ct = Some ps \<and> scan_parts ps = None) \<Longrightarrow>
   read_response env resp = Inl (Error (Some MSG_NO_IMAGE))"
  by (auto simp: read_response_def)

text \<open>
  C4, as the program has it. An attempt succeeds exactly when the endpoint responds and
  the first candidate of the response has content whose parts include one with non-empty
  inline data; the data of the first such part of the first candidate makes the result.
  A response without candidates, or whose first candidate's parts hold no such part,
  makes the attempt throw the "no image" error.
\<close>

theorem success_condition:
  "(try_body env req n = Inr r) =
     (\<exists>resp c cs ct ps d. generateContent env req n = Responds resp \<and>
        candidates resp = Some (c # cs) \<and> content c = Some ct \<and>
        parts ct = Some ps \<and> scan_parts ps = Some d \<and> r = make_result d) \<and>
   (scan_parts ps = Some d) =
     (\<exists>pre p post. ps = pre @ p # post \<and> (\<forall>q\<in>set pre. inline_image q = None) \<and>
        inline_image p = Some d) \<and>
   (inline_image p = Some d) = (d \<noteq> [] \<and> (\<exists>b. inlineData p = Some b \<and> data b = Some d)) \<and>
   (generateContent env req n = Responds resp \<and>
    (candidates resp = None \<or> candidates resp = Some [] \<or>
     (\<exists>c cs ct ps. candidates resp = Some (c # cs) \<and> content c = Some ct \<and>
        parts ct = Some ps \<and> scan_parts ps = None)) \<longrightarrow>
      try_body env req n = Inl (Error (Some MSG_NO_IMAGE)))"
proof (intro conjI impI)
  show "(try_body env req n = Inr r) =
     (\<exists>resp c cs ct ps d. generateContent env req n = Responds resp \<and>
        candidates resp = Some (c # cs) \<and> content c = Some ct \<and>
        parts ct = Some ps \<and> scan_parts ps = Some d \<and> r = make_result d)"
    by (rule try_body_Inr_iff)
  show "(scan_parts ps = Some d) =
     (\<exists>pre p post. ps = pre @ p # post \<and> (\<forall>q\<in>set pre. inline_image q = None) \<and>
        inline_image p = Some d)"
    by (rule scan_parts_Some_iff)
  show "(inline_image p = Some d) = (d \<noteq> [] \<and> (\<exists>b. inlineData p = Some b \<and> data b = Some d))"
    by (rule inline_image_Some_iff)
next
  assume a: "generateContent env req n = Responds resp \<and>
    (candidates resp = None \<or> candidates resp = Some [] \<or>
     (\<exists>c cs ct ps. candidates resp = Some (c # cs) \<and> content c = Some ct \<and>
        parts ct = Some ps \<and> scan_parts ps = None))"
  then have "read_response env resp = Inl (Error (Some MSG_NO_IMAGE))"
    by (intro read_response_no_image) simp
  with a show "try_body env req n = Inl (Error (Some MSG_NO_IMAGE))"
    by (simp add: try_body_def)
qed

theorem success_condition_witness:
  "generateContent (mock_env (scripted [Responds (image_response ''QUJD'')])) mock_request 0
     = Responds (image_response ''QUJD'') \<and>
   inline_image (text_part ''Done.'') = None \<and>
   inline_image (image_part ''QUJD'') = Some ''QUJD'' \<and>
   scan_parts [text_part ''Done.'', image_part ''QUJD''] = Some ''QUJD'' \<and>
   try_body (mock_env (scripted [Responds (image_response ''QUJD'')])) mock_request 0
     = Inr (make_result ''QUJD'') \<and>
   generateContent (mock_env (scripted [Responds (Response (Some []))])) mock_request 0
     = Responds (Response (Some [])) \<and>
   try_body (mock_env (scripted [Responds (Response (Some []))])) mock_request 0
     = Inl (Error (Some MSG_NO_IMAGE))"
proof -
  let ?e1 = "mock_env (scripted [Responds (image_response ''QUJD'')])"
  let ?e0 = "mock_env (scripted [Responds (Response (Some []))])"
  let ?ps = "[text_part ''Done.'', image_part ''QUJD'']"
  note s1 = success_condition [of ?e1 mock_request 0 "make_result ''QUJD''" ?ps "''QUJD''"
      "image_part ''QUJD''"]
  note s0 = success_condition [of ?e0 mock_request 0 _ _ _ _ "Response (Some [])"]
  have g1: "generateContent ?e1 mock_request 0 = Responds (image_response ''QUJD'')"
    and g0: "generateContent ?e0 mock_request 0 = Responds (Response (Some []))"
    by (simp_all add: scripted_def)
  have t: "inline_image (text_part ''Done.'') = None"
    by (simp add: inline_image_def text_part_def)
  have "inlineData (image_part ''QUJD'') = Some (Blob (Some ''image/png'') (Some ''QUJD'')) \<and>
      data (Blob (Some ''image/png'') (Some ''QUJD'')) = Some ''QUJD''"
    by (simp add: image_part_def)
  with s1 have i: "inline_image (image_part ''QUJD'') = Some ''QUJD''"
    by blast
  have "?ps = [text_part ''Done.''] @ image_part ''QUJD'' # [] \<and>
      (\<forall>q\<in>set [text_part ''Done.'']. inline_image q = None) \<and>
      inline_image (image_part ''QUJD'') = Some ''QUJD''"
    using t i by simp
  with s1 have sc: "scan_parts ?ps = Some ''QUJD''"
    by blast
  have "candidates (image_response ''QUJD'') =
        Some (Candidate (Some (Content (Some ?ps))) # []) \<and>
      content (Candidate (Some (Content (Some ?ps)))) = Some (Content (Some ?ps)) \<and>
      parts (Content (Some ?ps)) = Some ?ps"
    by (simp add: image_response_def)
  with s1 g1 sc have tb: "try_body ?e1 mock_request 0 = Inr (make_result ''QUJD'')"
    by blast
  from s0 g0 have t0: "try_body ?e0 mock_request 0 = Inl (Error (Some MSG_NO_IMAGE))"
    by simp
  from g1 t i sc tb g0 t0 show ?thesis by simp
qed

text \<open>
  A response whose second candidate carries the image, and whose first carries text
  only, makes the attempt throw the "no image" error.
\<close>

theorem image_in_second_candidate_counterexample:
  "candidates (second_candidate_response ''QUJD'') =
     Some [Candidate (Some (Content (Some [text_part ''Done.'']))),
           Candidate (Some (Content (Some [image_part ''QUJD''])))] \<and>
   inline_image (image_part ''QUJD'') = Some ''QUJD'' \<and>
   generateContent (mock_env (scripted [Responds (second_candidate_response ''QUJD'')]))
     mock_request 0 = Responds (second_candidate_response ''QUJD'') \<and>
   try_body (mock_env (scripted [Responds (second_candidate_response ''QUJD'')]))
     mock_request 0 = Inl (Error (Some MSG_NO_IMAGE))"
  by (simp add: second_candidate_response_def inline_image_def image_part_def text_part_def
      try_body_def scripted_def read_response_def)

section \<open>The result of a successful call\<close>

lemma retry_loop_Returned:
  "attempt \<le> MAX_RETRIES \<Longrightarrow> snd (retry_loop env req attempt) = Returned r \<Longrightarrow>
   \<exists>n\<le>MAX_RETRIES. try_body env req n = Inr r"
proof (induction env req attempt rule: retry_loop.induct)
  case (1 env req attempt)
  from retry_loop_cases [OF "1.prems"(1), of env req] show ?case
  proof (elim disjE exE conjE)
    fix r'
    assume "try_body env req attempt = Inr r'"
      "retry_loop env req attempt = ([Call attempt], Returned r')"
    with "1.prems" show ?thesis by auto
  next
    fix e y
    assume "retry_loop env req attempt = ([Call attempt], Threw y)"
    with "1.prems"(2) show ?thesis by simp
  next
    fix e ms
    assume a: "try_body env req attempt = Inl e" "catch_block attempt e = Continue ms"
      "Suc attempt \<le> MAX_RETRIES"
      and eq: "retry_loop env req attempt =
        (Call attempt # Wait ms # fst (retry_loop env req (Suc attempt)),
         snd (retry_loop env req (Suc attempt)))"
    from eq "1.prems"(2) have "snd (retry_loop env req (Suc attempt)) = Returned r" by simp
    with "1.IH" [OF "1.prems"(1) a(1,2)] a(3) show ?thesis by simp
  qed
qed

lemma Math_round_cost: "Math_round (ESTIMATED_COST_USD * EXCHANGE_RATE) = 51"
  by (simp add: Math_round_def ESTIMATED_COST_USD_def EXCHANGE_RATE_def)

lemma toFixed_cost: "toFixed ESTIMATED_COST_USD 4 = ''0.0020''"
  by (simp add: toFixed_def ESTIMATED_COST_USD_def Let_def show_nat.simps pad_left_def digit_def
      numeral_2_eq_2)

lemma toLocaleString_51: "toLocaleString_vi_VN 51 = ''51''"
  by (simp add: toLocaleString_vi_VN_def group_thousands.simps show_nat.simps digit_def)

lemma cost_make_result:
  "cost (make_result d) = \<lparr>usd = ''$0.0020'', vnd = ''51 '' @ [CHR 0xC4, CHR 0x91]\<rparr>"
  by (simp add: make_result_def Let_def Math_round_cost toFixed_cost toLocaleString_51)

lemma generate_Inr_client:
  assumes "snd (generateFurnitureImage env img f opt) = Inr r"
  shows "newGoogleGenAI env (API_KEY env) = None"
proof (cases "newGoogleGenAI env (API_KEY env)")
  case (Some e)
  with assms show ?thesis by (simp add: generate_no_client)
qed simp

lemma generate_Inr:
  assumes c: "compressImage env img 1024 0.8 = Resolved c"
    and g: "snd (generateFurnitureImage env img f opt) = Inr r"
  shows "snd (retry_loop env (make_request (build_prompt f opt) (cleanBase64 c)) 0) = Returned r"
proof -
  let ?L = "retry_loop env (make_request (build_prompt f opt) (cleanBase64 c)) 0"
  from g show ?thesis
    unfolding generate_via_loop [OF generate_Inr_client [OF g] c]
    by (cases "snd ?L") (simp_all add: after_loop_def)
qed

text \<open>
  C5. When the call returns a result, there is an attempt within the budget at which the
  endpoint responded, and with \<open>X\<close> the data of the part the program chose there, the
  result's \<^verbatim>\<open>imageUrl\<close> is \<^verbatim>\<open>data:image/jpeg;base64,\<close> followed by \<open>X\<close>, so that dropping
  the prefix gives \<open>X\<close> back. The cost is the same pair in every result: the dollar
  string is the format of the constant 0.002 to four digits, \<^verbatim>\<open>$0.0020\<close>, and the other
  string is the format of \<open>round (0.002 * 25400) = 51\<close>.
\<close>

theorem result_image_and_cost:
  assumes "snd (generateFurnitureImage env img f opt) = Inr r"
  shows "cost r = \<lparr>usd = ''$0.0020'', vnd = ''51 '' @ [CHR 0xC4, CHR 0x91]\<rparr> \<and>
    usd (cost r) = ''$'' @ toFixed ESTIMATED_COST_USD 4 \<and>
    vnd (cost r) =
      toLocaleString_vi_VN (Math_round (ESTIMATED_COST_USD * EXCHANGE_RATE)) @
      '' '' @ [CHR 0xC4, CHR 0x91] \<and>
    (\<exists>c n resp cd cs ct ps X.
       compressImage env img 1024 0.8 = Resolved c \<and> n \<le> MAX_RETRIES \<and>
       generateContent env (make_request (build_prompt f opt) (cleanBase64 c)) n
         = Responds resp \<and>
       candidates resp = Some (cd # cs) \<and> content cd = Some ct \<and> parts ct = Some ps \<and>
       scan_parts ps = Some X \<and>
       imageUrl r = ''data:image/jpeg;base64,'' @ X \<and>
       drop (length ''data:image/jpeg;base64,'') (imageUrl r) = X)"
proof -
  obtain c where c: "compressImage env img 1024 0.8 = Resolved c"
    using compressImage_resolves by blast
  let ?req = "make_request (build_prompt f opt) (cleanBase64 c)"
  from retry_loop_Returned [OF _ generate_Inr [OF c assms]]
  obtain n where n: "n \<le> MAX_RETRIES" "try_body env ?req n = Inr r" by auto
  from n(2) obtain resp cd cs ct ps X where
    x: "generateContent env ?req n = Responds resp" "candidates resp = Some (cd # cs)"
      "content cd = Some ct" "parts ct = Some ps" "scan_parts ps = Some X"
      "r = make_result X"
    unfolding try_body_Inr_iff by blast
  have u: "imageUrl r = ''data:image/jpeg;base64,'' @ X"
    unfolding x(6) by (simp add: make_result_def Let_def)
  then have d: "drop (length ''data:image/jpeg;base64,'') (imageUrl r) = X" by simp
  have k: "cost r = \<lparr>usd = ''$0.0020'', vnd = ''51 '' @ [CHR 0xC4, CHR 0x91]\<rparr>"
    unfolding x(6) by (rule cost_make_result)
  have k1: "usd (cost r) = ''$'' @ toFixed ESTIMATED_COST_USD 4"
    unfolding x(6) by (simp add: make_result_def Let_def)
  have k2: "vnd (cost r) =
      toLocaleString_vi_VN (Math_round (ESTIMATED_COST_USD * EXCHANGE_RATE)) @
      '' '' @ [CHR 0xC4, CHR 0x91]"
    unfolding x(6) by (simp add: make_result_def Let_def)
  from c n(1) x(1-5) u d have "\<exists>c n resp cd cs ct ps X.
       compressImage env img 1024 0.8 = Resolved c \<and> n \<le> MAX_RETRIES \<and>
       generateContent env (make_request (build_prompt f opt) (cleanBase64 c)) n
         = Responds resp \<and>
       candidates resp = Some (cd # cs) \<and> content cd = Some ct \<and> parts ct = Some ps \<and>
       scan_parts ps = Some X \<and>
       imageUrl r = ''data:image/jpeg;base64,'' @ X \<and>
       drop (length ''data:image/jpeg;base64,'') (imageUrl r) = X"
    by blast
  with k k1 k2 show ?thesis by simp
qed

theorem result_image_and_cost_witness:
  "snd (generateFurnitureImage
     (mock_env (scripted [Raises (Error (Some ''fetch failed'')),
                          Responds (image_response ''QUJD'')]))
     ''data:image/png;base64,iVBORw0KGgo='' SCENE_PLACEMENT ''Living Room'')
     = Inr (make_result ''QUJD'') \<and>
   imageUrl (make_result ''QUJD'') = ''data:image/jpeg;base64,QUJD'' \<and>
   cost (make_result ''QUJD'') = \<lparr>usd = ''$0.0020'', vnd = ''51 '' @ [CHR 0xC4, CHR 0x91]\<rparr>"
proof -
  have g: "snd (generateFurnitureImage
     (mock_env (scripted [Raises (Error (Some ''fetch failed'')),
                          Responds (image_response ''QUJD'')]))
     ''data:image/png;base64,iVBORw0KGgo='' SCENE_PLACEMENT ''Living Room'')
     = Inr (make_result ''QUJD'')"
    by (simp add: run_mock)
  have u: "imageUrl (make_result ''QUJD'') = ''data:image/jpeg;base64,QUJD''"
    by (simp add: make_result_def Let_def)
  from result_image_and_cost [OF g] g u show ?thesis by simp
qed

section \<open>The loop is never left by its condition\<close>

lemma generate_cases:
  assumes k: "newGoogleGenAI env (API_KEY env) = None"
    and c: "compressImage env img 1024 0.8 = Resolved c"
  shows "\<exists>evs.
     (\<exists>r. retry_loop env (make_request (build_prompt f opt) (cleanBase64 c)) 0
            = (evs, Returned r) \<and>
          generateFurnitureImage env img f opt = (evs, Inr r)) \<or>
     (\<exists>e. retry_loop env (make_request (build_prompt f opt) (cleanBase64 c)) 0
            = (evs, Threw e) \<and>
          generateFurnitureImage env img f opt = (evs, Inl e))"
proof -
  let ?L = "retry_loop env (make_request (build_prompt f opt) (cleanBase64 c)) 0"
  have nf: "snd ?L \<noteq> FellThrough" by (rule retry_loop_not_FellThrough) simp
  have g: "generateFurnitureImage env img f opt = (fst ?L, after_loop (snd ?L))"
    by (rule generate_via_loop [OF k c])
  show ?thesis
  proof (cases "snd ?L")
    case (Returned r)
    then have "?L = (fst ?L, Returned r) \<and>
        generateFurnitureImage env img f opt = (fst ?L, Inr r)"
      using g by (simp add: after_loop_def prod_eq_iff)
    then show ?thesis by blast
  next
    case (Threw e)
    then have "?L = (fst ?L, Threw e) \<and>
        generateFurnitureImage env img f opt = (fst ?L, Inl e)"
      using g by (simp add: after_loop_def prod_eq_iff)
    then show ?thesis by blast
  next
    case FellThrough
    with nf show ?thesis by simp
  qed
qed

text \<open>
  C10. The throw after the retry loop is unreachable. Whatever the endpoint does, the
  loop started at attempt 0 is never left by its condition; in the last attempt the
  \<^verbatim>\<open>catch\<close> block always throws; every attempt within the budget returns a result,
  throws in the \<^verbatim>\<open>catch\<close> block, or waits and continues with the next attempt, which
  is then within the budget too; and what the call gives its caller is the error of the
  client object's constructor, thrown before the loop is entered, or the loop's own
  result, or the error thrown in the loop.
\<close>

theorem fallback_unreachable:
  "snd (retry_loop env req 0) \<noteq> FellThrough \<and>
   (\<forall>e. \<exists>x. catch_block MAX_RETRIES e = Throw x) \<and>
   (\<forall>attempt. attempt \<le> MAX_RETRIES \<longrightarrow>
      (\<exists>r. try_body env req attempt = Inr r \<and>
           retry_loop env req attempt = ([Call attempt], Returned r)) \<or>
      (\<exists>e x. try_body env req attempt = Inl e \<and> catch_block attempt e = Throw x \<and>
           retry_loop env req attempt = ([Call attempt], Threw x)) \<or>
      (\<exists>e ms. try_body env req attempt = Inl e \<and> catch_block attempt e = Continue ms \<and>
           Suc attempt \<le> MAX_RETRIES \<and>
           retry_loop env req attempt =
             (Call attempt # Wait ms # fst (retry_loop env req (Suc attempt)),
              snd (retry_loop env req (Suc attempt))))) \<and>
   (\<forall>c. compressImage env img 1024 0.8 = Resolved c \<longrightarrow>
      (\<exists>e. newGoogleGenAI env (API_KEY env) = Some e \<and>
           generateFurnitureImage env img f opt = ([], Inl e)) \<or>
      (\<exists>evs.
         (\<exists>r. retry_loop env (make_request (build_prompt f opt) (cleanBase64 c)) 0
                = (evs, Returned r) \<and>
              generateFurnitureImage env img f opt = (evs, Inr r)) \<or>
         (\<exists>e. retry_loop env (make_request (build_prompt f opt) (cleanBase64 c)) 0
                = (evs, Threw e) \<and>
              generateFurnitureImage env img f opt = (evs, Inl e))))"
proof (intro conjI allI impI)
  show "snd (retry_loop env req 0) \<noteq> FellThrough"
    by (rule retry_loop_not_FellThrough) simp
next
  fix e show "\<exists>x. catch_block MAX_RETRIES e = Throw x"
    by (rule catch_block_last)
next
  fix attempt assume "attempt \<le> MAX_RETRIES"
  then show "(\<exists>r. try_body env req attempt = Inr r \<and>
           retry_loop env req attempt = ([Call attempt], Returned r)) \<or>
      (\<exists>e x. try_body env req attempt = Inl e \<and> catch_block attempt e = Throw x \<and>
           retry_loop env req attempt = ([Call attempt], Threw x)) \<or>
      (\<exists>e ms. try_body env req attempt = Inl e \<and> catch_block attempt e = Continue ms \<and>
           Suc attempt \<le> MAX_RETRIES \<and>
           retry_loop env req attempt =
             (Call attempt # Wait ms # fst (retry_loop env req (Suc attempt)),
              snd (retry_loop env req (Suc attempt))))"
    by (rule retry_loop_cases)
next
  fix c assume c: "compressImage env img 1024 0.8 = Resolved c"
  show "(\<exists>e. newGoogleGenAI env (API_KEY env) = Some e \<and>
           generateFurnitureImage env img f opt = ([], Inl e)) \<or>
      (\<exists>evs.
         (\<exists>r. retry_loop env (make_request (build_prompt f opt) (cleanBase64 c)) 0
                = (evs, Returned r) \<and>
              generateFurnitureImage env img f opt = (evs, Inr r)) \<or>
         (\<exists>e. retry_loop env (make_request (build_prompt f opt) (cleanBase64 c)) 0
                = (evs, Threw e) \<and>
              generateFurnitureImage env img f opt = (evs, Inl e)))"
  proof (cases "newGoogleGenAI env (API_KEY env)")
    case (Some e)
    then show ?thesis by (simp add: generate_no_client)
  next
    case None
    from generate_cases [OF None c, of f opt] show ?thesis by (rule disjI2)
  qed
qed

theorem fallback_unreachable_witness:
  "snd (retry_loop (mock_env (always_raises ''fetch failed'')) mock_request 0) \<noteq> FellThrough \<and>
   (2::nat) \<le> MAX_RETRIES \<and>
   retry_loop (mock_env (always_raises ''fetch failed'')) mock_request 2 =
     ([Call 2], Threw (Error (Some ''fetch failed''))) \<and>
   compressImage (mock_env (always_raises ''fetch failed''))
     ''data:image/png;base64,iVBORw0KGgo='' 1024 0.8
     = Resolved ''data:image/jpeg;base64,/9j/4AAQ'' \<and>
   generateFurnitureImage (mock_env (always_raises ''fetch failed''))
     ''data:image/png;base64,iVBORw0KGgo='' MULTI_ANGLE ''Back''
     = ([Call 0, Wait 1000, Call 1, Wait 1000, Call 2], Inl (Error (Some ''fetch failed'')))"
proof -
  let ?env = "mock_env (always_raises ''fetch failed'')"
  note u = fallback_unreachable [of ?env mock_request "''data:image/png;base64,iVBORw0KGgo=''"
      MULTI_ANGLE "''Back''"]
  have le: "(2::nat) \<le> MAX_RETRIES" by (simp add: MAX_RETRIES_def)
  have c: "catch_block 2 (Error (Some ''fetch failed'')) = Throw (Error (Some ''fetch failed''))"
    by (simp add: catch_block_def isRateLimit_def message_includes_def str_includes_def
        MAX_RETRIES_def sublist_code prefix_code)
  from u have a: "snd (retry_loop ?env mock_request 0) \<noteq> FellThrough" by blast
  from u [THEN conjunct2, THEN conjunct2, THEN conjunct1, rule_format, OF le] c
  have b: "retry_loop ?env mock_request 2 = ([Call 2], Threw (Error (Some ''fetch failed'')))"
    by (auto simp: try_body_always_raises)
  have k: "compressImage ?env ''data:image/png;base64,iVBORw0KGgo='' 1024 0.8
     = Resolved ''data:image/jpeg;base64,/9j/4AAQ''"
    by (simp add: compressImage_mock)
  have "retry_loop ?env (make_request (build_prompt MULTI_ANGLE ''Back'')
            (cleanBase64 ''data:image/jpeg;base64,/9j/4AAQ'')) 0
      = ([Call 0, Wait 1000, Call 1, Wait 1000, Call 2], Threw (Error (Some ''fetch failed'')))"
    by (simp add: run_mock)
  moreover have "newGoogleGenAI ?env (API_KEY ?env) = None"
    by (rule newGoogleGenAI_mock)
  ultimately have g:
    "generateFurnitureImage ?env ''data:image/png;base64,iVBORw0KGgo='' MULTI_ANGLE ''Back''
     = ([Call 0, Wait 1000, Call 1, Wait 1000, Call 2], Inl (Error (Some ''fetch failed'')))"
    using u [THEN conjunct2, THEN conjunct2, THEN conjunct2, rule_format, OF k]
    by auto
  from a le b k g show ?thesis by simp
qed

end
